theory Spec2Isabelle
  imports Complex_Main "HOL-Library.While_Combinator"
begin

section \<open>JavaScript numbers\<close>

text \<open>
  The rocket simulator (RocketPhysics.jsx and its later variant) computes with
  JavaScript numbers. They are modelled as the reals extended with the two
  infinities and NaN: arithmetic on finite values is exact (no rounding, no
  overflow), a division by zero and an operation on an infinity or on NaN give
  what IEEE-754 gives. The zero is unsigned: a division of a non-zero number by
  zero takes the sign of the numerator.
\<close>

datatype jsnum = Num real | PosInf | NegInf | NaN

instantiation jsnum :: "{plus, minus, uminus, times, inverse, ord}"
begin

fun plus_jsnum :: "jsnum \<Rightarrow> jsnum \<Rightarrow> jsnum" where
  "plus_jsnum (Num a) (Num b) = Num (a + b)"
| "plus_jsnum NaN _ = NaN"
| "plus_jsnum _ NaN = NaN"
| "plus_jsnum PosInf NegInf = NaN"
| "plus_jsnum NegInf PosInf = NaN"
| "plus_jsnum PosInf _ = PosInf"
| "plus_jsnum _ PosInf = PosInf"
| "plus_jsnum NegInf _ = NegInf"
| "plus_jsnum _ NegInf = NegInf"

fun uminus_jsnum :: "jsnum \<Rightarrow> jsnum" where
  "uminus_jsnum (Num a) = Num (- a)"
| "uminus_jsnum PosInf = NegInf"
| "uminus_jsnum NegInf = PosInf"
| "uminus_jsnum NaN = NaN"

fun minus_jsnum :: "jsnum \<Rightarrow> jsnum \<Rightarrow> jsnum" where
  "minus_jsnum (Num a) (Num b) = Num (a - b)"
| "minus_jsnum NaN _ = NaN"
| "minus_jsnum _ NaN = NaN"
| "minus_jsnum PosInf PosInf = NaN"
| "minus_jsnum NegInf NegInf = NaN"
| "minus_jsnum PosInf _ = PosInf"
| "minus_jsnum _ NegInf = PosInf"
| "minus_jsnum NegInf _ = NegInf"
| "minus_jsnum _ PosInf = NegInf"

fun times_jsnum :: "jsnum \<Rightarrow> jsnum \<Rightarrow> jsnum" where
  "times_jsnum (Num a) (Num b) = Num (a * b)"
| "times_jsnum NaN _ = NaN"
| "times_jsnum _ NaN = NaN"
| "times_jsnum PosInf (Num b) = (if b = 0 then NaN else if 0 < b then PosInf else NegInf)"
| "times_jsnum NegInf (Num b) = (if b = 0 then NaN else if 0 < b then NegInf else PosInf)"
| "times_jsnum (Num a) PosInf = (if a = 0 then NaN else if 0 < a then PosInf else NegInf)"
| "times_jsnum (Num a) NegInf = (if a = 0 then NaN else if 0 < a then NegInf else PosInf)"
| "times_jsnum PosInf PosInf = PosInf"
| "times_jsnum PosInf NegInf = NegInf"
| "times_jsnum NegInf PosInf = NegInf"
| "times_jsnum NegInf NegInf = PosInf"

fun divide_jsnum :: "jsnum \<Rightarrow> jsnum \<Rightarrow> jsnum" where
  "divide_jsnum (Num a) (Num b) =
     (if b = 0 then (if a = 0 then NaN else if 0 < a then PosInf else NegInf)
      else Num (a / b))"
| "divide_jsnum NaN _ = NaN"
| "divide_jsnum _ NaN = NaN"
| "divide_jsnum (Num a) PosInf = Num 0"
| "divide_jsnum (Num a) NegInf = Num 0"
| "divide_jsnum PosInf (Num b) = (if 0 \<le> b then PosInf else NegInf)"
| "divide_jsnum NegInf (Num b) = (if 0 \<le> b then NegInf else PosInf)"
| "divide_jsnum PosInf PosInf = NaN"
| "divide_jsnum PosInf NegInf = NaN"
| "divide_jsnum NegInf PosInf = NaN"
| "divide_jsnum NegInf NegInf = NaN"

fun inverse_jsnum :: "jsnum \<Rightarrow> jsnum" where
  "inverse_jsnum (Num a) = (if a = 0 then PosInf else Num (1 / a))"
| "inverse_jsnum PosInf = Num 0"
| "inverse_jsnum NegInf = Num 0"
| "inverse_jsnum NaN = NaN"

text \<open>The comparisons \<open><\<close> and \<open><=\<close> of JavaScript: false as soon as
  one side is NaN. (\<open>a > b\<close> is \<open>b < a\<close>, \<open>a >= b\<close> is \<open>b <= a\<close>.)\<close>

fun less_jsnum :: "jsnum \<Rightarrow> jsnum \<Rightarrow> bool" where
  "less_jsnum (Num a) (Num b) = (a < b)"
| "less_jsnum NaN _ = False"
| "less_jsnum _ NaN = False"
| "less_jsnum PosInf _ = False"
| "less_jsnum _ PosInf = True"
| "less_jsnum _ NegInf = False"
| "less_jsnum NegInf _ = True"

fun less_eq_jsnum :: "jsnum \<Rightarrow> jsnum \<Rightarrow> bool" where
  "less_eq_jsnum (Num a) (Num b) = (a \<le> b)"
| "less_eq_jsnum NaN _ = False"
| "less_eq_jsnum _ NaN = False"
| "less_eq_jsnum _ PosInf = True"
| "less_eq_jsnum NegInf _ = True"
| "less_eq_jsnum PosInf _ = False"
| "less_eq_jsnum _ NegInf = False"

instance ..

end

fun isNaN :: "jsnum \<Rightarrow> bool" where
  "isNaN NaN = True"
| "isNaN _ = False"

fun isFinite :: "jsnum \<Rightarrow> bool" where
  "isFinite (Num a) = True"
| "isFinite _ = False"

fun Math_abs :: "jsnum \<Rightarrow> jsnum" where
  "Math_abs (Num a) = Num \<bar>a\<bar>"
| "Math_abs PosInf = PosInf"
| "Math_abs NegInf = PosInf"
| "Math_abs NaN = NaN"

text \<open>\<open>Math.min\<close> and \<open>Math.max\<close> return NaN when an argument is NaN.\<close>

fun Math_min :: "jsnum \<Rightarrow> jsnum \<Rightarrow> jsnum" where
  "Math_min (Num a) (Num b) = Num (min a b)"
| "Math_min NaN _ = NaN"
| "Math_min _ NaN = NaN"
| "Math_min NegInf _ = NegInf"
| "Math_min _ NegInf = NegInf"
| "Math_min PosInf b = b"
| "Math_min a PosInf = a"

fun Math_max :: "jsnum \<Rightarrow> jsnum \<Rightarrow> jsnum" where
  "Math_max (Num a) (Num b) = Num (max a b)"
| "Math_max NaN _ = NaN"
| "Math_max _ NaN = NaN"
| "Math_max PosInf _ = PosInf"
| "Math_max _ PosInf = PosInf"
| "Math_max NegInf b = b"
| "Math_max a NegInf = a"

fun Math_sqrt :: "jsnum \<Rightarrow> jsnum" where
  "Math_sqrt (Num a) = (if a < 0 then NaN else Num (sqrt a))"
| "Math_sqrt PosInf = PosInf"
| "Math_sqrt NegInf = NaN"
| "Math_sqrt NaN = NaN"

text \<open>\<open>Math.pow(x, n)\<close> at a positive integer exponent (the source uses 2, 3 and 4),
  at the exponent 0.5 and at the exponent 1.5.\<close>

fun Math_pow_int :: "jsnum \<Rightarrow> nat \<Rightarrow> jsnum" where
  "Math_pow_int (Num a) n = Num (a ^ n)"
| "Math_pow_int PosInf n = (if n = 0 then Num 1 else PosInf)"
| "Math_pow_int NegInf n = (if n = 0 then Num 1 else if even n then PosInf else NegInf)"
| "Math_pow_int NaN n = (if n = 0 then Num 1 else NaN)"

fun Math_pow_half :: "jsnum \<Rightarrow> jsnum" where
  "Math_pow_half (Num a) = (if a < 0 then NaN else Num (sqrt a))"
| "Math_pow_half PosInf = PosInf"
| "Math_pow_half NegInf = PosInf"
| "Math_pow_half NaN = NaN"

fun Math_pow_three_halves :: "jsnum \<Rightarrow> jsnum" where
  "Math_pow_three_halves (Num a) = (if a < 0 then NaN else Num (a * sqrt a))"
| "Math_pow_three_halves PosInf = PosInf"
| "Math_pow_three_halves NegInf = PosInf"
| "Math_pow_three_halves NaN = NaN"

fun Math_atan :: "jsnum \<Rightarrow> jsnum" where
  "Math_atan (Num a) = Num (arctan a)"
| "Math_atan PosInf = Num (pi / 2)"
| "Math_atan NegInf = Num (- (pi / 2))"
| "Math_atan NaN = NaN"

fun Math_cos :: "jsnum \<Rightarrow> jsnum" where
  "Math_cos (Num a) = Num (cos a)"
| "Math_cos _ = NaN"

fun Math_sin :: "jsnum \<Rightarrow> jsnum" where
  "Math_sin (Num a) = Num (sin a)"
| "Math_sin _ = NaN"

definition Math_PI :: jsnum where
  "Math_PI = Num pi"

section \<open>Rocket parameters and constants\<close>

text \<open>The object \<open>finParams\<close> that the flight loop builds for
  \<open>calculateFinDeflection\<close>, and the object that
  \<open>calculateCenterOfPressure\<close> returns. (They are declared first because they
  share field names with \<open>rocketParams\<close>; their fields are written
  qualified.)\<close>

record FinParams =
  finHeight :: jsnum
  finBaseWidth :: jsnum
  finTipWidth :: jsnum
  finThickness :: jsnum
  finSweepLength :: jsnum

record CenterOfPressure =
  noseCp :: jsnum
  bodyCp :: jsnum
  finCp :: jsnum
  centerOfPressure :: jsnum
  foreBodyCp :: jsnum

text \<open>
  The fields of the \<open>rocketParams\<close> object that the physics functions read.
  \<open>finCount\<close> and \<open>finCp\<close> are properties that may be absent
  (\<open>None\<close> is \<open>undefined\<close>).
\<close>

record RocketParams =
  noseShape :: string
  noseHeight :: jsnum
  bodyHeight :: jsnum
  bodyWidth :: jsnum
  finHeight :: jsnum
  finBaseWidth :: jsnum
  finTipWidth :: jsnum
  finSweepLength :: jsnum
  finThickness :: jsnum
  finMaterial :: string
  finCount :: "jsnum option"
  selectedMotor :: string
  selectedParachute :: string
  weight :: jsnum
  centerOfGravity :: jsnum
  finCp :: "jsnum option"

text \<open>An entry of the table \<open>FIN_MATERIALS\<close> (module RocketConstants, which is
  not part of the sources): the functions below take the entry
  \<open>FIN_MATERIALS[finMaterial]\<close> as a parameter.\<close>

record Material =
  G :: jsnum
  E :: jsnum

text \<open>Modelled from the spec: \<open>mmToM\<close> of the module RocketConstants is not part
  of the sources; the spec says that lengths in millimetres are converted to
  metres before any formula is applied.\<close>

definition mmToM :: "jsnum \<Rightarrow> jsnum" where
  "mmToM mm = mm / Num 1000"

section \<open>Fin divergence and flutter speed\<close>

text \<open>\<open>calculateFinDivergenceSpeed\<close> (RocketPhysics.jsx, lines 315-348; the later
  variant has the same body).\<close>

definition calculateFinDivergenceSpeed :: "Material \<Rightarrow> RocketParams \<Rightarrow> jsnum" where
  "calculateFinDivergenceSpeed material rocketParams =
    (let finHeight_m = mmToM (finHeight rocketParams);
         finBaseWidth_m = mmToM (finBaseWidth rocketParams);
         finTipWidth_m = mmToM (finTipWidth rocketParams);
         finSweepLength_m = mmToM (finSweepLength rocketParams);
         finThickness_m = mmToM (finThickness rocketParams);
         G = Material.G material;
         rho = Num 1.225;
         meanChord = (finBaseWidth_m + finTipWidth_m) / Num 2;
         sweepbackAngle = Math_atan ((finSweepLength_m + Num 0.5 * finTipWidth_m
                             - Num 0.5 * finBaseWidth_m) * Num 3.14 / meanChord);
         J = Num 0.3333 * finTipWidth_m * Math_pow_int finThickness_m 3;
         liftCoefficient_fin = (Num 9 / Num 3.14) * Math_cos sweepbackAngle;
         divSpeed = (Num 3.14 / (Num 2 * finHeight_m))
                    * Math_pow_half (Num 2 * G * J
                        / (rho * Math_pow_int meanChord 2 * Num 0.25 * liftCoefficient_fin))
     in Math_max (Num 20) (Math_min (Num 300) divSpeed))"

text \<open>\<open>calculateFinFlutterSpeed\<close>, first variant (RocketPhysics.jsx, lines 351-392).\<close>

definition calculateFinFlutterSpeed_v1 :: "Material \<Rightarrow> RocketParams \<Rightarrow> jsnum" where
  "calculateFinFlutterSpeed_v1 material rocketParams =
    (let finHeight_m = mmToM (finHeight rocketParams);
         finBaseWidth_m = mmToM (finBaseWidth rocketParams);
         finTipWidth_m = mmToM (finTipWidth rocketParams);
         finThickness_m = mmToM (finThickness rocketParams);
         G = Material.G material;
         E = Material.E material;
         poissonsRatio = Num 0.3;
         rho = Num 1.225;
         meanChord = (finBaseWidth_m + finTipWidth_m) / Num 2;
         empiricalConstant = Num 3.5;
         factorA = empiricalConstant * finThickness_m / Math_pow_three_halves meanChord;
         factorB = Math_sqrt (G * E / (Num 12 * rho * (Num 1 - Math_pow_int poissonsRatio 2)))
     in if \<not> isFinite factorA \<or> \<not> isFinite factorB
        then Num 40 + mmToM (bodyHeight rocketParams + noseHeight rocketParams) * Num 120
        else let flutterSpeed = factorA * factorB
             in Math_max (Num 30) (Math_min (Num 400) flutterSpeed))"

text \<open>\<open>calculateFinFlutterSpeed\<close>, later variant (part_001, lines 440-516).\<close>

definition calculateFinFlutterSpeed :: "Material \<Rightarrow> RocketParams \<Rightarrow> jsnum" where
  "calculateFinFlutterSpeed material rocketParams =
    (let finHeight_m = mmToM (finHeight rocketParams);
         finBaseWidth_m = mmToM (finBaseWidth rocketParams);
         finTipWidth_m = mmToM (finTipWidth rocketParams);
         finThickness_m = mmToM (finThickness rocketParams);
         bodyWidth_m = mmToM (bodyWidth rocketParams);
         G = Material.G material;
         E = Material.E material;
         specificHeatRatio = Num 0.221;
         epsilon = Num 0.25;
         lengthOfCo = ((finBaseWidth_m - finTipWidth_m) / finHeight_m)
                        * ((bodyWidth_m / Num 2) + finHeight_m) + finTipWidth_m;
         finSpan_half = finHeight_m + bodyWidth_m / Num 2;
         chord_half = lengthOfCo * Num 0.5;
         cord_threequarter = lengthOfCo * Num 0.75;
         aspectRatio_FL = finSpan_half / chord_half;
         taperRatio = finTipWidth_m / lengthOfCo;
         atmosphericPressure_O = Num 101325;
         atmosphericPressure_M = Num 101325;
         polarMomentOfArea_fin = cord_threequarter * finThickness_m
             * (Math_pow_int finThickness_m 2 + Math_pow_int cord_threequarter 2) / Num 12;
         Ge = (Num 6 * polarMomentOfArea_fin * G)
                / (cord_threequarter * Math_pow_int finThickness_m 3);
         poissonsRatio = Num 0.3;
         rho = Num 1.225;
         meanChord = (finBaseWidth_m + finTipWidth_m) / Num 2;
         empiricalConstant = Num 3.5;
         factorA = empiricalConstant * finThickness_m / Math_pow_three_halves meanChord;
         factorB = Math_sqrt (G * E / (Num 12 * rho * (Num 1 - Math_pow_int poissonsRatio 2)))
     in if \<not> isFinite factorA \<or> \<not> isFinite factorB
        then Num 40 + mmToM (bodyHeight rocketParams + noseHeight rocketParams) * Num 120
        else let flutterSpeed =
                   Math_pow_half (Num 3.14 * Math_pow_int (finThickness_m / cord_threequarter) 3 * Ge
                      / (Num 12 * epsilon
                          * (Math_pow_int aspectRatio_FL 3 / (aspectRatio_FL + Num 2))
                          * (taperRatio + Num 1) * specificHeatRatio * atmosphericPressure_O
                          * (atmosphericPressure_M / atmosphericPressure_O)))
                   * Num 343
             in Math_max (Num 30) (Math_min (Num 400) flutterSpeed))"

section \<open>Projected areas, volumes and centre of pressure\<close>

text \<open>
  \<open>calculateProjectedArea\<close> checks its argument before it computes, so its
  argument is modelled as an arbitrary JavaScript value: an object is an
  association list of properties, a missing property reads as \<open>undefined\<close>.
  The function returns \<open>Inr\<close> of the object it returns, or \<open>Inl\<close> of
  the error it throws.
\<close>

datatype jsval =
    JUndefined
  | JNull
  | JBool bool
  | JNumber jsnum
  | JString string
  | JObject "(string \<times> jsval) list"
  | JFunction

fun typeof :: "jsval \<Rightarrow> string" where
  "typeof JUndefined = ''undefined''"
| "typeof JNull = ''object''"
| "typeof (JBool b) = ''boolean''"
| "typeof (JNumber n) = ''number''"
| "typeof (JString s) = ''string''"
| "typeof (JObject ps) = ''object''"
| "typeof JFunction = ''function''"

text \<open>Truthiness: \<open>!v\<close> is \<open>\<not> truthy v\<close>.\<close>

fun truthy :: "jsval \<Rightarrow> bool" where
  "truthy JUndefined = False"
| "truthy JNull = False"
| "truthy (JBool b) = b"
| "truthy (JNumber n) = (n \<noteq> Num 0 \<and> n \<noteq> NaN)"
| "truthy (JString s) = (s \<noteq> [])"
| "truthy (JObject ps) = True"
| "truthy JFunction = True"

datatype jserror = TypeError

text \<open>Reading properties by destructuring, \<open>const { a, b } = v\<close>: a
  TypeError on \<open>undefined\<close> and \<open>null\<close>; otherwise every property is
  read, an absent one as \<open>undefined\<close> (a primitive value has none of the
  properties asked for here).\<close>

definition properties :: "(string \<times> jsval) list \<Rightarrow> string \<Rightarrow> jsval" where
  "properties ps k = (case map_of ps k of Some v \<Rightarrow> v | None \<Rightarrow> JUndefined)"

fun destructure :: "jsval \<Rightarrow> jserror + (string \<Rightarrow> jsval)" where
  "destructure JUndefined = Inl TypeError"
| "destructure JNull = Inl TypeError"
| "destructure (JObject ps) = Inr (properties ps)"
| "destructure _ = Inr (\<lambda>k. JUndefined)"

text \<open>The number held by a value whose \<open>typeof\<close> is \<open>'number'\<close>.\<close>

fun numberOf :: "jsval \<Rightarrow> jsnum" where
  "numberOf (JNumber n) = n"
| "numberOf _ = NaN"

record AreaProfile =
  frontalArea :: jsnum
  sideArea :: jsnum
  noseArea :: "jsnum option"
  finArea :: jsnum
  totalFinArea :: jsnum
  angledArea :: jsnum

text \<open>The object returned on invalid input; it has no \<open>noseArea\<close> property.\<close>

definition zeroedProfile :: AreaProfile where
  "zeroedProfile = \<lparr> frontalArea = Num 0, sideArea = Num 0, noseArea = None,
                      finArea = Num 0, totalFinArea = Num 0, angledArea = Num 0 \<rparr>"

text \<open>The test \<open>typeof f !== 'number'\<close> over the eight required fields, in the
  order of the source.\<close>

definition missingNumericField :: "(string \<Rightarrow> jsval) \<Rightarrow> bool" where
  "missingNumericField props =
    (typeof (props ''noseHeight'') \<noteq> ''number'' \<or>
     typeof (props ''bodyHeight'') \<noteq> ''number'' \<or>
     typeof (props ''bodyWidth'') \<noteq> ''number'' \<or>
     typeof (props ''finHeight'') \<noteq> ''number'' \<or>
     typeof (props ''finBaseWidth'') \<noteq> ''number'' \<or>
     typeof (props ''finTipWidth'') \<noteq> ''number'' \<or>
     typeof (props ''finThickness'') \<noteq> ''number'' \<or>
     typeof (props ''finSweepLength'') \<noteq> ''number'')"

text \<open>\<open>calculateProjectedArea\<close>, first variant (RocketPhysics.jsx, lines 13-102);
  the returned object has no \<open>noseArea\<close> property.\<close>

definition calculateProjectedArea_v1 :: "jsval \<Rightarrow> jserror + AreaProfile" where
  "calculateProjectedArea_v1 rocketParams =
    (if \<not> truthy rocketParams \<or> typeof rocketParams \<noteq> ''object'' then Inr zeroedProfile
     else case destructure rocketParams of Inl error \<Rightarrow> Inl error | Inr props \<Rightarrow>
     if missingNumericField props then Inr zeroedProfile
     else
      let noseShape = props ''noseShape'';
          noseHeight = numberOf (props ''noseHeight'');
          bodyHeight = numberOf (props ''bodyHeight'');
          bodyWidth = numberOf (props ''bodyWidth'');
          finHeight = numberOf (props ''finHeight'');
          finBaseWidth = numberOf (props ''finBaseWidth'');
          finTipWidth = numberOf (props ''finTipWidth'');
          finThickness = numberOf (props ''finThickness'');
          noseHeight_m = mmToM noseHeight;
          bodyHeight_m = mmToM bodyHeight;
          bodyWidth_m = mmToM bodyWidth;
          bodyRadius_m = bodyWidth_m / Num 2;
          finHeight_m = mmToM finHeight;
          finBaseWidth_m = mmToM finBaseWidth;
          finTipWidth_m = mmToM finTipWidth;
          frontalArea = Math_PI * Math_pow_int bodyRadius_m 2
                          + (finHeight * finThickness) * Num 4 * Num 0.0000001;
          bodyArea = bodyWidth_m * bodyHeight_m;
          noseArea = (if noseShape = JString ''cone'' then Num 0.5 * bodyWidth_m * noseHeight_m
                      else if noseShape = JString ''parabola''
                           then (Num 2 / Num 3) * bodyWidth_m * noseHeight_m
                      else (Num 2 / Num 3) * bodyWidth_m * noseHeight_m);
          finArea = finHeight_m * (finBaseWidth_m + finTipWidth_m) / Num 2;
          totalFinArea = finArea * Num 2;
          sideArea = bodyArea + noseArea + totalFinArea;
          angledArea = Math_sqrt (Math_pow_int frontalArea 2 + Math_pow_int sideArea 2)
      in Inr \<lparr> frontalArea = frontalArea, sideArea = sideArea, noseArea = None,
               finArea = finArea, totalFinArea = totalFinArea, angledArea = angledArea \<rparr>)"

text \<open>\<open>calculateProjectedArea\<close>, later variant (part_001, lines 14-123):
  \<open>finCount\<close> defaults to 3 when the property is \<open>undefined\<close>, and a
  three-fin rocket gets a foreshortened fin with an overlap term subtracted.\<close>

definition calculateProjectedArea :: "jsval \<Rightarrow> jserror + AreaProfile" where
  "calculateProjectedArea rocketParams =
    (if \<not> truthy rocketParams \<or> typeof rocketParams \<noteq> ''object'' then Inr zeroedProfile
     else case destructure rocketParams of Inl error \<Rightarrow> Inl error | Inr props \<Rightarrow>
     if missingNumericField props then Inr zeroedProfile
     else
      let noseShape = props ''noseShape'';
          noseHeight = numberOf (props ''noseHeight'');
          bodyHeight = numberOf (props ''bodyHeight'');
          bodyWidth = numberOf (props ''bodyWidth'');
          finHeight = numberOf (props ''finHeight'');
          finBaseWidth = numberOf (props ''finBaseWidth'');
          finTipWidth = numberOf (props ''finTipWidth'');
          finSweepLength = numberOf (props ''finSweepLength'');
          finThickness = numberOf (props ''finThickness'');
          finCount = (case props ''finCount'' of
                        JUndefined \<Rightarrow> JNumber (Num 3) | v \<Rightarrow> v);
          noseHeight_m = mmToM noseHeight;
          bodyHeight_m = mmToM bodyHeight;
          bodyWidth_m = mmToM bodyWidth;
          bodyRadius_m = bodyWidth_m / Num 2;
          finHeight_m = mmToM finHeight;
          finBaseWidth_m = mmToM finBaseWidth;
          finTipWidth_m = mmToM finTipWidth;
          frontalArea = Math_PI * Math_pow_int bodyRadius_m 2
                          + (finHeight * finThickness) * Num 4 * Num 0.0000001;
          bodyArea = bodyWidth_m * bodyHeight_m;
          noseArea = (if noseShape = JString ''cone'' then Num 0.5 * bodyWidth_m * noseHeight_m
                      else if noseShape = JString ''parabola''
                           then (Num 2 / Num 3) * bodyWidth_m * noseHeight_m
                      else (Num 2 / Num 3) * bodyWidth_m * noseHeight_m);
          finArea =
            (if finCount = JNumber (Num 3) then
               let adjustedFinHeight = finHeight_m * Num 1.73 / Num 2;
                   overlapFinBaseWidth =
                     (if finBaseWidth \<le> finSweepLength + finTipWidth
                      then (((finTipWidth_m - finBaseWidth_m) * finBaseWidth_m * Num 0.078
                                / finHeight_m) + finBaseWidth_m)
                             - finTipWidth_m * bodyWidth_m * Num 0.078 / finHeight_m
                      else ((finTipWidth_m - finBaseWidth_m) * finBaseWidth_m * Num 0.078
                                / finHeight_m) + finBaseWidth_m)
               in (adjustedFinHeight * (finBaseWidth_m + finTipWidth_m) / Num 2)
                    - ((overlapFinBaseWidth + finBaseWidth_m)
                         * ((bodyWidth_m / Num 2) - bodyWidth_m * Num 1.73 / Num 4) / Num 2)
             else finHeight_m * (finBaseWidth_m + finTipWidth_m) / Num 2);
          totalFinArea = finArea * Num 2;
          sideArea = bodyArea + noseArea + totalFinArea;
          angledArea = Math_sqrt (Math_pow_int frontalArea 2 + Math_pow_int sideArea 2)
      in Inr \<lparr> frontalArea = frontalArea, sideArea = sideArea, noseArea = Some noseArea,
               finArea = finArea, totalFinArea = totalFinArea, angledArea = angledArea \<rparr>)"

text \<open>The \<open>rocketParams\<close> object that the typed record stands for.\<close>

definition toObject :: "RocketParams \<Rightarrow> jsval" where
  "toObject rocketParams = JObject
    ([(''noseShape'', JString (noseShape rocketParams)),
      (''noseHeight'', JNumber (noseHeight rocketParams)),
      (''bodyHeight'', JNumber (bodyHeight rocketParams)),
      (''bodyWidth'', JNumber (bodyWidth rocketParams)),
      (''finHeight'', JNumber (finHeight rocketParams)),
      (''finBaseWidth'', JNumber (finBaseWidth rocketParams)),
      (''finTipWidth'', JNumber (finTipWidth rocketParams)),
      (''finSweepLength'', JNumber (finSweepLength rocketParams)),
      (''finThickness'', JNumber (finThickness rocketParams)),
      (''finMaterial'', JString (finMaterial rocketParams)),
      (''selectedMotor'', JString (selectedMotor rocketParams)),
      (''selectedParachute'', JString (selectedParachute rocketParams)),
      (''weight'', JNumber (weight rocketParams)),
      (''centerOfGravity'', JNumber (centerOfGravity rocketParams))]
     @ (case finCount rocketParams of None \<Rightarrow> [] | Some n \<Rightarrow> [(''finCount'', JNumber n)])
     @ (case finCp rocketParams of None \<Rightarrow> [] | Some c \<Rightarrow> [(''finCp'', JNumber c)]))"



text \<open>\<open>calculateCenterOfPressure\<close>, later variant (part_001, lines 160-233). A
  property that the area profile does not have reads as \<open>undefined\<close>, which
  arithmetic turns into NaN.\<close>

definition calculateCenterOfPressure :: "RocketParams \<Rightarrow> jserror + CenterOfPressure" where
  "calculateCenterOfPressure rocketParams =
    (case calculateProjectedArea (toObject rocketParams) of Inl error \<Rightarrow> Inl error | Inr areas \<Rightarrow>
     let noseHeight = noseHeight rocketParams;
         bodyHeight = bodyHeight rocketParams;
         finHeight = finHeight rocketParams;
         finBaseWidth = finBaseWidth rocketParams;
         finTipWidth = finTipWidth rocketParams;
         finSweepLength = finSweepLength rocketParams;
         finCount = finCount rocketParams;
         noseCp = (if noseShape rocketParams = ''cone'' then noseHeight * Num 0.666
                   else if noseShape rocketParams = ''parabola'' then noseHeight * Num 0.614
                   else noseHeight * Num 0.575);
         bodyCp = noseHeight + bodyHeight / Num 2;
         finArea_section1 =
           (if finCount = Some (Num 3) then (finBaseWidth * finHeight * Num 1.732 * Num 0.5) / Num 2
            else (finBaseWidth * finHeight) / Num 2);
         finArea_section2 =
           (if finCount = Some (Num 3) then (finTipWidth * finHeight * Num 1.732 * Num 0.5) / Num 2
            else (finTipWidth * finHeight) / Num 2);
         finCP_y_section1 = (finBaseWidth + finSweepLength) / Num 3;
         finCP_y_section2 = (finBaseWidth + finSweepLength + (finSweepLength + finTipWidth)) / Num 3;
         finSection_single =
           (if finCount = Some (Num 3)
              then (finBaseWidth + finTipWidth) * (finHeight * (Num 1.732 / Num 2)) / Num 2
            else (finBaseWidth + finTipWidth) * finHeight / Num 2);
         finCP_single = ((finCP_y_section1 * finArea_section1) + (finCP_y_section2 * finArea_section2))
                          / finSection_single;
         finCp = noseHeight + bodyHeight - finBaseWidth + finCP_single;
         noseArea = (case AreaProfile.noseArea areas of Some a \<Rightarrow> a | None \<Rightarrow> NaN) * Num 1000000;
         bodyArea = AreaProfile.sideArea areas * Num 1000000 - noseArea
                      - AreaProfile.totalFinArea areas * Num 1000000;
         totalFinArea = AreaProfile.totalFinArea areas * Num 1000000;
         totalArea = noseArea + bodyArea + totalFinArea;
         centerOfPressure = (noseCp * noseArea + bodyCp * bodyArea + finCp * totalFinArea) / totalArea;
         foreBodyArea = noseArea + bodyArea;
         foreBodyCp = (noseCp * noseArea + bodyCp * bodyArea) / foreBodyArea
     in Inr \<lparr> noseCp = noseCp, bodyCp = bodyCp, CenterOfPressure.finCp = finCp,
              centerOfPressure = centerOfPressure, foreBodyCp = foreBodyCp \<rparr>)"

section \<open>Fin deflection\<close>

text \<open>
  \<open>calculateFinDeflection\<close>, first variant (RocketPhysics.jsx, lines 603-674),
  in three parts: the value \<open>rawDeflection\<close> that the \<open>try\<close> block
  computes; what the function returns from the outcome of the block (\<open>Inl\<close>
  when the block threw, which the \<open>catch\<close> handler turns into 15); and the
  function itself. \<open>Number(finThickness) || 2.0\<close> replaces a thickness of 0
  or NaN by 2. On numbers no operation of the block raises.
\<close>

definition rawDeflection_v1 :: "jsnum \<Rightarrow> Material \<Rightarrow> FinParams \<Rightarrow> jsnum \<Rightarrow> jsnum" where
  "rawDeflection_v1 velocity material finParams angleChangePerDt2 =
    (let finHeight = FinParams.finHeight finParams;
         finBaseWidth = FinParams.finBaseWidth finParams;
         finTipWidth = FinParams.finTipWidth finParams;
         finThickness = FinParams.finThickness finParams;
         finSweepLength = FinParams.finSweepLength finParams;
         E = Material.E material;
         safeFinThickness =
           (if finThickness = Num 0 \<or> finThickness = NaN then Num 2 else finThickness);
         safeAngleChange = Math_max (Num (- 0.5)) (Math_min (Num 0.5) angleChangePerDt2);
         safeVelocity = Math_min velocity (Num 300);
         finArea = ((finBaseWidth + finTipWidth) * Num 0.001) * (finHeight * Num 0.001) / Num 2;
         taperRatio =
           (if Num 0 < finHeight
            then Math_max (Num (- 0.9)) (Math_min (Num 0.9)
                   (((finBaseWidth * Num 0.001) - (finTipWidth * Num 0.001))
                      / (finHeight * Num 0.001)))
            else Num 0);
         sweepAngle = Math_atan ((finSweepLength * Num 0.001 + Num 0.5 * finTipWidth * Num 0.001
                          - Num 0.5 * finBaseWidth * Num 0.001) * Math_PI / (finHeight * Num 0.001));
         I0 = (if Num 0 < finTipWidth \<and> Num 0 < safeFinThickness
               then (finTipWidth * Num 0.001 * Math_pow_int (safeFinThickness * Num 0.001) 3) / Num 12
               else Num 0);
         I = (if I0 < Num (1 / 10 ^ 12) then Num (1 / 10 ^ 12) else I0);
         windForce = (Num 9.81 * Num 0.05 * safeVelocity * safeVelocity)
                       * Math_sin safeAngleChange * finArea;
         unitlengthWindForce = windForce / Math_max (Num 0.001) (finHeight * Num 0.001);
         deflectionFactor = (Num 1 / (Num 1 - taperRatio))
     in (unitlengthWindForce * Math_pow_int (finHeight * Num 0.001) 4
           * Math_cos sweepAngle / (Num 8 * E * I)) * deflectionFactor)"

definition concludeDeflection_v1 :: "jserror + jsnum \<Rightarrow> jsnum" where
  "concludeDeflection_v1 outcome =
    (case outcome of
       Inl error \<Rightarrow> Num 15
     | Inr rawDeflection \<Rightarrow>
         if isNaN rawDeflection then Num 15
         else if Num 15 < Math_abs rawDeflection then Num 15
         else rawDeflection)"

definition calculateFinDeflection_v1 :: "jsnum \<Rightarrow> Material \<Rightarrow> FinParams \<Rightarrow> jsnum \<Rightarrow> jsnum" where
  "calculateFinDeflection_v1 velocity material finParams angleChangePerDt2 =
    (if Math_abs velocity < Num 0.001 then Num 0
     else concludeDeflection_v1 (Inr (rawDeflection_v1 velocity material finParams angleChangePerDt2)))"

text \<open>\<open>calculateFinDeflection\<close>, later variant (part_001, lines 519-609), in the
  same three parts: the load no longer depends on the angle change, the value is
  in millimetres (\<open>deflectionMm\<close>) and a value of magnitude at least 0.01 is
  returned as its absolute value.\<close>

definition computeDeflectionMm :: "jsnum \<Rightarrow> Material \<Rightarrow> FinParams \<Rightarrow> jsnum" where
  "computeDeflectionMm velocity material finParams =
    (let finHeight = FinParams.finHeight finParams;
         finBaseWidth = FinParams.finBaseWidth finParams;
         finTipWidth = FinParams.finTipWidth finParams;
         finThickness = FinParams.finThickness finParams;
         finSweepLength = FinParams.finSweepLength finParams;
         E = Material.E material;
         safeFinThickness =
           (if finThickness = Num 0 \<or> finThickness = NaN then Num 2 else finThickness);
         safeVelocity = Math_min velocity (Num 300);
         finArea = ((finBaseWidth + finTipWidth) * Num 0.001) * (finHeight * Num 0.001) / Num 2;
         taperRatio =
           (if Num 0 < finHeight
            then Math_max (Num (- 0.9)) (Math_min (Num 0.9)
                   (((finBaseWidth * Num 0.001) - (finTipWidth * Num 0.001))
                      / (finHeight * Num 0.001)))
            else Num 0);
         sweepAngle = Math_atan ((finSweepLength * Num 0.001 + Num 0.5 * finTipWidth * Num 0.001
                          - Num 0.5 * finBaseWidth * Num 0.001) * Math_PI / (finHeight * Num 0.001));
         meanChord = (finBaseWidth + finTipWidth) * Num 0.001 / Num 2;
         I0 = (meanChord * Math_pow_int (safeFinThickness * Num 0.001) 3) / Num 12;
         I = (if I0 < Num (1 / 10 ^ 12) then Num (1 / 10 ^ 12) else I0);
         dragCoefficient = Num 1.28;
         airDensity = Num 1.225;
         windForce = Num 0.5 * airDensity * safeVelocity * safeVelocity * dragCoefficient * finArea;
         unitLengthWindForce = windForce / Math_max (Num 0.001) (finHeight * Num 0.001);
         deflectionFactor = (Num 1 / (Num 1 - taperRatio));
         rawDeflection = (unitLengthWindForce * Math_pow_int (finHeight * Num 0.001) 4
                            * Math_cos sweepAngle / (Num 8 * E * I)) * deflectionFactor
     in rawDeflection * Num 1000)"

definition concludeDeflection :: "jserror + jsnum \<Rightarrow> jsnum" where
  "concludeDeflection outcome =
    (case outcome of
       Inl error \<Rightarrow> Num 15
     | Inr deflectionMm \<Rightarrow>
         if isNaN deflectionMm then Num 15
         else if Num 15 < Math_abs deflectionMm then Num 15
         else if Math_abs deflectionMm < Num 0.01 then deflectionMm
         else Math_max (Num 0.01) (Math_abs deflectionMm))"

definition calculateFinDeflection :: "jsnum \<Rightarrow> Material \<Rightarrow> FinParams \<Rightarrow> jsnum \<Rightarrow> jsnum" where
  "calculateFinDeflection velocity material finParams angleChangePerDt2 =
    (if Math_abs velocity < Num 0.001 then Num 0
     else concludeDeflection (Inr (computeDeflectionMm velocity material finParams)))"

section \<open>Moment functions\<close>

fun Math_sign :: "jsnum \<Rightarrow> jsnum" where
  "Math_sign (Num a) = Num (sgn a)"
| "Math_sign PosInf = Num 1"
| "Math_sign NegInf = Num (- 1)"
| "Math_sign NaN = NaN"

text \<open>The test that every moment function makes to choose the sign:
  \<open>(point >= cg && angle < 0) || (point < cg && angle >= 0)\<close>,
  with \<open>cg\<close> the centre of gravity.\<close>

definition signCondition :: "jsnum \<Rightarrow> jsnum \<Rightarrow> jsnum \<Rightarrow> bool" where
  "signCondition point cg angle =
    ((cg \<le> point \<and> angle < Num 0) \<or> (point < cg \<and> Num 0 \<le> angle))"

text \<open>The floor that ends every moment function:
  \<open>if (Math.abs(m) > 0 && Math.abs(m) < MIN_MOMENT) return Math.sign(m) * MIN_MOMENT\<close>.\<close>

definition MIN_MOMENT :: jsnum where
  "MIN_MOMENT = Num 0.00001"

definition belowFloor :: "jsnum \<Rightarrow> bool" where
  "belowFloor finalMoment = (Num 0 < Math_abs finalMoment \<and> Math_abs finalMoment < MIN_MOMENT)"

text \<open>\<open>calculateLiftMoment\<close> (RocketPhysics.jsx, lines 443-477; the same in the
  later variant). The parameter \<open>rocketParams\<close> is not read.\<close>

definition calculateLiftMoment :: "jsnum \<Rightarrow> jsnum \<Rightarrow> jsnum \<Rightarrow> jsnum \<Rightarrow> jsnum \<Rightarrow> jsnum \<Rightarrow> jsnum" where
  "calculateLiftMoment =
    (\<lambda>velocity omega flightAngle sideArea aerodynamicCenter centerOfGravity.
     let velocitySquared = Math_min (velocity * velocity) (Num 10000);
         angleOfAttack = omega - flightAngle;
         liftCoefficient = Num 0.6 * angleOfAttack;
         momentMagnitude = Math_abs (liftCoefficient * Num 0.5 * Num 1.225 * velocitySquared
                              * sideArea * (aerodynamicCenter - centerOfGravity) * Num 0.001);
         finalMoment = (if signCondition aerodynamicCenter centerOfGravity angleOfAttack
                        then - momentMagnitude else momentMagnitude)
     in if belowFloor finalMoment then Math_sign finalMoment * MIN_MOMENT
        else if Num 0.5 < Math_abs angleOfAttack then finalMoment * Num 1.2
        else finalMoment)"

text \<open>\<open>calculateDragMoment\<close>, first variant (RocketPhysics.jsx, lines 479-507).\<close>

definition calculateDragMoment_v1 :: "jsnum \<Rightarrow> jsnum \<Rightarrow> jsnum \<Rightarrow> jsnum \<Rightarrow> jsnum \<Rightarrow> jsnum \<Rightarrow> jsnum" where
  "calculateDragMoment_v1 =
    (\<lambda>velocity omega flightAngle sideArea aerodynamicCenter centerOfGravity.
     let velocitySquared = Math_min (velocity * velocity) (Num 10000);
         angleOfAttack = omega - flightAngle;
         dragCoefficient = Num 0.01 * Math_pow_int angleOfAttack 2 - Num 0.02 * angleOfAttack + Num 0.63;
         momentMagnitude = Math_abs (dragCoefficient * Num 0.5 * Num 1.225 * velocitySquared
                              * sideArea * (aerodynamicCenter - centerOfGravity) * Num 0.001);
         finalMoment = (if signCondition aerodynamicCenter centerOfGravity angleOfAttack
                        then - momentMagnitude else momentMagnitude)
     in if belowFloor finalMoment then Math_sign finalMoment * MIN_MOMENT
        else finalMoment)"

text \<open>\<open>calculateDragMoment\<close>, later variant (part_001, lines 696-724): the
  reference area is the body cross-section.\<close>

definition calculateDragMoment :: "jsnum \<Rightarrow> jsnum \<Rightarrow> jsnum \<Rightarrow> jsnum \<Rightarrow> jsnum \<Rightarrow> jsnum \<Rightarrow> jsnum" where
  "calculateDragMoment =
    (\<lambda>velocity omega flightAngle bodyDiameter aerodynamicCenter centerOfGravity.
     let velocitySquared = Math_min (velocity * velocity) (Num 10000);
         angleOfAttack = omega - flightAngle;
         dragCoefficient = Num 0.01 * Math_pow_int angleOfAttack 2 - Num 0.02 * angleOfAttack + Num 0.63;
         momentMagnitude = Math_abs (dragCoefficient * Num 0.5 * Num 1.225 * velocitySquared
                              * (bodyDiameter * Num 0.001 / Num 2) * (bodyDiameter * Num 0.001 / Num 2)
                              * Num 3.14 * (aerodynamicCenter - centerOfGravity) * Num 0.001);
         finalMoment = (if signCondition aerodynamicCenter centerOfGravity angleOfAttack
                        then - momentMagnitude else momentMagnitude)
     in if belowFloor finalMoment then Math_sign finalMoment * MIN_MOMENT
        else finalMoment)"

text \<open>\<open>calculateWindMoment\<close> (RocketPhysics.jsx, lines 509-541). The later
  variant has one more parameter, \<open>stabilityCenterOfPressure\<close>, which it does
  not read, and the same body.\<close>

definition calculateWindMoment ::
    "jsnum \<Rightarrow> jsnum \<Rightarrow> jsnum \<Rightarrow> jsnum \<Rightarrow> jsnum \<Rightarrow> jsnum \<Rightarrow> jsnum \<Rightarrow> jsnum \<Rightarrow> jsnum" where
  "calculateWindMoment =
    (\<lambda>noseHeight bodyDiameter bodyHeight windSpeed omega totalFinArea
      centerOfPressure centerOfGravity.
     let safeWindSpeed = Math_max (Num (- 25)) (Math_min (Num 25) windSpeed);
         Dwf = Num 9.81 * Num 0.05 * Math_pow_int safeWindSpeed 2 * totalFinArea;
         Dwb = Num 0.23 * Num 0.5 * Num 1.225 * Math_pow_int safeWindSpeed 2 * bodyDiameter
                 * (bodyHeight + noseHeight) / Num 1000000;
         cosAngle = Math_cos omega;
         momentMagnitude = Math_abs ((Dwf + Dwb) * cosAngle * (centerOfPressure - centerOfGravity)
                              * Num 0.001);
         finalMoment = (if signCondition centerOfPressure centerOfGravity windSpeed
                        then momentMagnitude else - momentMagnitude)
     in if belowFloor finalMoment then Math_sign finalMoment * MIN_MOMENT
        else finalMoment)"

text \<open>\<open>calculateFinMoment\<close> (part_001, lines 789-843; only the later variant has
  it). \<open>finCount\<close> is \<open>None\<close> when the property is absent.\<close>

definition calculateFinMoment ::
    "jsnum \<Rightarrow> jsnum \<Rightarrow> jsnum option \<Rightarrow> jsnum \<Rightarrow> jsnum \<Rightarrow> jsnum \<Rightarrow> jsnum \<Rightarrow> jsnum \<Rightarrow> jsnum" where
  "calculateFinMoment =
    (\<lambda>finHeight finBaseWidth finCount velocity omega flightAngle finCp centerOfGravity.
     let rho = Num 1.225;
         finHeight_m = mmToM finHeight;
         finBaseWidth_m = mmToM finBaseWidth;
         finCP_m = mmToM finCp;
         angleOfAttack = omega - flightAngle;
         finLeanArea = (if finCount = Some (Num 3)
                        then finHeight_m * (Num 1.732 / Num 2) * finBaseWidth_m * Math_sin angleOfAttack
                        else finHeight_m * finBaseWidth_m * Math_sin angleOfAttack);
         totalLeanFinArea = finLeanArea * Num 2;
         cd = Num 0.3 / (Num 5 * Num 3.14 / Num 180) * angleOfAttack;
         dragOfFinLean = cd * Num 0.5 * rho * velocity * velocity * totalLeanFinArea;
         momentArm = mmToM (Math_abs (finCP_m - centerOfGravity));
         momentMagnitude = Math_abs (dragOfFinLean * momentArm * Math_sign angleOfAttack);
         finalMoment = (if signCondition finCP_m centerOfGravity angleOfAttack
                        then momentMagnitude else - momentMagnitude)
     in if belowFloor finalMoment then Math_sign finalMoment * MIN_MOMENT
        else finalMoment)"

text \<open>\<open>calculateThrustMoment\<close> (RocketPhysics.jsx, lines 572-600; the same in the
  later variant). It reads \<open>noseHeight\<close> and \<open>bodyHeight\<close> of
  \<open>rocketParams\<close>.\<close>

definition calculateThrustMoment :: "jsnum \<Rightarrow> jsnum \<Rightarrow> jsnum \<Rightarrow> jsnum \<Rightarrow> RocketParams \<Rightarrow> jsnum" where
  "calculateThrustMoment =
    (\<lambda>thrust centerOfGravity omega flightAngle rocketParams.
     let angleOfAttack = omega - flightAngle;
         thrustPosition = noseHeight rocketParams + bodyHeight rocketParams;
         momentMagnitude = Math_abs (thrust * Math_sin angleOfAttack * Math_cos angleOfAttack
                              * (thrustPosition - centerOfGravity) * Num 0.001);
         finalMoment = (if signCondition thrustPosition centerOfGravity angleOfAttack
                        then momentMagnitude else - momentMagnitude)
     in if belowFloor finalMoment then Math_sign finalMoment * MIN_MOMENT
        else finalMoment)"

section \<open>The flight loop\<close>

text \<open>
  \<open>calculateFlightPath\<close> (RocketPhysics.jsx, lines 677-1392; the two later
  variants, lines 1392-2224 and part_001 lines 877-1673, have the same loop
  skeleton). The loop variables \<open>time\<close>, \<open>x\<close>, \<open>y\<close>, \<open>vx\<close>,
  \<open>vy\<close>, \<open>prev_vx\<close>, \<open>prev_vy\<close>, \<open>omega\<close>,
  \<open>angularVelocity\<close>, the three parachute variables and the array
  \<open>data\<close> are fields of the state; all other loop variables (step counter,
  accumulated torque, maxima, key points, stability flags, ...) are the field
  \<open>rest\<close>. The state holds finite numbers, so it is over the reals.

  The part of an iteration between the parachute update and the velocity update
  (fin deflection, forces, torque, the coarse attitude update and the two
  attitude corrections: lines 800-1269) is a parameter \<open>dynamics\<close> of the
  model: it reads the rocket parameters and the state and returns the values
  that the rest of the iteration uses. Every statement below holds for every such
  function whose results are finite numbers.
\<close>

record FlightSample =
  time :: real
  physicsX :: real
  physicsY :: real
  height :: real
  vx :: real
  vy :: real
  ax :: real
  ay :: real
  speedMagnitude :: real
  accelerationMagnitude :: real
  angularVelocity :: real
  angularAcceleration :: real
  isParachuteEjected :: bool
  isParachuteActive :: bool
  parachuteDeploymentProgress :: real
  omega :: real
  torque :: real
  angleChangePerDt2 :: real
  horizontalDistance :: real
  finDeflection :: real
  angleDeviationDegrees :: real
  effectiveWindSpeed :: real

record 'a StepDynamics =
  ax :: real
  ay :: real
  torque :: real
  omega :: real
  angularVelocity :: real
  angularAcceleration :: real
  angleChangePerDt2 :: real
  finDeflection :: real
  effectiveWindSpeed :: real
  rest :: 'a

record 'a SimState =
  time :: real
  x :: real
  y :: real
  vx :: real
  vy :: real
  prev_vx :: real
  prev_vy :: real
  omega :: real
  angularVelocity :: real
  isParachuteEjected :: bool
  isParachuteActive :: bool
  parachuteDeploymentProgress :: real
  data :: "FlightSample list"
  rest :: 'a

text \<open>What the loop reads from its surroundings: the launch angle in degrees,
  the thrust samples of the motor (table \<open>MOTOR_THRUST_DATA\<close>), the ejection
  delay parsed from the motor name and the rail length (\<open>PHYSICAL_CONSTANTS\<close>).
  The tables are in the module RocketConstants, which is not part of the sources.\<close>

record FlightEnv =
  angle :: real
  thrustData :: "real list"
  parachuteDelay :: real
  launchRailLength :: real

definition dt :: real where
  "dt = 0.02"

definition MAX_TIME :: real where
  "MAX_TIME = 20"

definition MAX_SPEED :: real where
  "MAX_SPEED = 100"

definition MAX_ANGULAR_VELOCITY :: real where
  "MAX_ANGULAR_VELOCITY = 5"

definition thrustEndTime :: "FlightEnv \<Rightarrow> real" where
  "thrustEndTime env = real (length (thrustData env)) * dt"

definition parachuteDeployTime :: real where
  "parachuteDeployTime = 1.0"

definition parachuteEjectionTime :: "FlightEnv \<Rightarrow> real" where
  "parachuteEjectionTime env = thrustEndTime env + parachuteDelay env"

definition parachuteActiveTime :: "FlightEnv \<Rightarrow> real" where
  "parachuteActiveTime env = parachuteEjectionTime env + parachuteDeployTime"

text \<open>The guard of the third parachute test (line 789): the test under which
  both velocity components are multiplied by 0.1.\<close>

definition deploymentCompletes :: "FlightEnv \<Rightarrow> 'a SimState \<Rightarrow> bool" where
  "deploymentCompletes env s =
    (\<not> SimState.isParachuteActive s \<and> parachuteActiveTime env \<le> SimState.time s)"

text \<open>Lines 779-798: the update of the parachute state at the head of an
  iteration.\<close>

definition updateParachute :: "FlightEnv \<Rightarrow> 'a SimState \<Rightarrow> 'a SimState" where
  "updateParachute env s =
    (let s1 = (if \<not> SimState.isParachuteEjected s \<and> parachuteEjectionTime env \<le> SimState.time s
               then s\<lparr> SimState.isParachuteEjected := True \<rparr> else s);
         s2 = (if SimState.isParachuteEjected s1 \<and> \<not> SimState.isParachuteActive s1
               then s1\<lparr> SimState.parachuteDeploymentProgress :=
                         min 1 ((SimState.time s1 - parachuteEjectionTime env) / parachuteDeployTime) \<rparr>
               else s1)
     in if deploymentCompletes env s2
        then s2\<lparr> SimState.isParachuteActive := True,
                 SimState.parachuteDeploymentProgress := 1.0,
                 SimState.vx := SimState.vx s2 * 0.1,
                 SimState.vy := SimState.vy s2 * 0.1 \<rparr>
        else s2)"

text \<open>One iteration of the loop (lines 774-1348).\<close>

definition simulationStep ::
    "('a SimState \<Rightarrow> 'a StepDynamics) \<Rightarrow> FlightEnv \<Rightarrow> 'a SimState \<Rightarrow> 'a SimState" where
  "simulationStep dynamics env s0 =
    (let s = updateParachute env (s0\<lparr> prev_vx := SimState.vx s0, prev_vy := SimState.vy s0 \<rparr>);
         distanceFromStart = sqrt (x s * x s + y s * y s);
         onLaunchRail = (distanceFromStart < launchRailLength env);
         velocity = sqrt (prev_vx s * prev_vx s + prev_vy s * prev_vy s);
         d = dynamics s;
         vx1 = SimState.vx s + StepDynamics.ax d * dt;
         vy1 = SimState.vy s + StepDynamics.ay d * dt;
         currentSpeed = sqrt (vx1 * vx1 + vy1 * vy1);
         factor = MAX_SPEED / currentSpeed;
         vx2 = (if MAX_SPEED < currentSpeed then vx1 * factor else vx1);
         vy2 = (if MAX_SPEED < currentSpeed then vy1 * factor else vy1);
         angularVelocity2 = max (- MAX_ANGULAR_VELOCITY)
                              (min MAX_ANGULAR_VELOCITY (StepDynamics.angularVelocity d));
         omega2 = StepDynamics.omega d;
         railDistance = min (distanceFromStart + velocity * dt) (launchRailLength env);
         x2 = (if onLaunchRail then (if angle env = 0 then 0 else railDistance * sin omega2)
               else x s + vx2 * dt);
         y2 = (if onLaunchRail then (if angle env = 0 then y s + vy2 * dt else railDistance * cos omega2)
               else y s + vy2 * dt);
         sample = \<lparr> FlightSample.time = SimState.time s,
                    physicsX = x2,
                    physicsY = y2,
                    height = y2,
                    FlightSample.vx = vx2,
                    FlightSample.vy = vy2,
                    FlightSample.ax = StepDynamics.ax d,
                    FlightSample.ay = StepDynamics.ay d,
                    speedMagnitude = sqrt (vx2 * vx2 + vy2 * vy2),
                    accelerationMagnitude =
                      sqrt (StepDynamics.ax d * StepDynamics.ax d + StepDynamics.ay d * StepDynamics.ay d),
                    FlightSample.angularVelocity = angularVelocity2,
                    FlightSample.angularAcceleration = StepDynamics.angularAcceleration d,
                    FlightSample.isParachuteEjected = SimState.isParachuteEjected s,
                    FlightSample.isParachuteActive = SimState.isParachuteActive s,
                    FlightSample.parachuteDeploymentProgress = SimState.parachuteDeploymentProgress s,
                    FlightSample.omega = omega2,
                    FlightSample.torque = StepDynamics.torque d,
                    FlightSample.angleChangePerDt2 = StepDynamics.angleChangePerDt2 d,
                    horizontalDistance = \<bar>x2\<bar>,
                    FlightSample.finDeflection = StepDynamics.finDeflection d,
                    angleDeviationDegrees = (omega2 * 180 / pi) - angle env,
                    FlightSample.effectiveWindSpeed = StepDynamics.effectiveWindSpeed d \<rparr>
     in s\<lparr> SimState.time := SimState.time s + dt,
           x := x2,
           y := y2,
           SimState.vx := vx2,
           SimState.vy := vy2,
           SimState.omega := omega2,
           SimState.angularVelocity := angularVelocity2,
           data := data s @ [sample],
           SimState.rest := StepDynamics.rest d \<rparr>)"

text \<open>The loop test (line 773):
  \<open>(y >= 0 || time < 0.1) && time < MAX_TIME\<close>.\<close>

definition loopCondition :: "'a SimState \<Rightarrow> bool" where
  "loopCondition s = ((0 \<le> y s \<or> SimState.time s < 0.1) \<and> SimState.time s < MAX_TIME)"

text \<open>The state before the first iteration (lines 726-753); \<open>rest0\<close> is the
  initial value of the loop variables that the state does not name.\<close>

definition initialState :: "FlightEnv \<Rightarrow> 'a \<Rightarrow> 'a SimState" where
  "initialState env rest0 =
    \<lparr> SimState.time = 0, x = 0, y = 0, SimState.vx = 0, SimState.vy = 0,
      prev_vx = 0, prev_vy = 0,
      SimState.omega = angle env * pi / 180,
      SimState.angularVelocity = 0,
      SimState.isParachuteEjected = False,
      SimState.isParachuteActive = False,
      SimState.parachuteDeploymentProgress = 0,
      data = [],
      SimState.rest = rest0 \<rparr>"

text \<open>
  \<open>calculateFlightPath\<close>: the rocket parameters after the call, and the final
  state of the loop (\<open>None\<close> if the loop did not end, or if the call threw
  before the loop). The first variant
  never assigns to a property of \<open>rocketParams\<close>; the second one (line 1437)
  stores the fin centre of pressure in it before the loop:
  \<open>rocketParams.finCp = centerOfPressure.finCp\<close>, and its moment
  computation reads the property back.
\<close>

definition calculateFlightPath_v1 ::
    "(RocketParams \<Rightarrow> 'a SimState \<Rightarrow> 'a StepDynamics) \<Rightarrow> 'a \<Rightarrow> FlightEnv \<Rightarrow> RocketParams
       \<Rightarrow> RocketParams \<times> 'a SimState option" where
  "calculateFlightPath_v1 dynamics rest0 env rocketParams =
    (rocketParams,
     while_option loopCondition (simulationStep (dynamics rocketParams) env) (initialState env rest0))"

definition calculateFlightPath ::
    "(RocketParams \<Rightarrow> 'a SimState \<Rightarrow> 'a StepDynamics) \<Rightarrow> 'a \<Rightarrow> FlightEnv \<Rightarrow> RocketParams
       \<Rightarrow> RocketParams \<times> 'a SimState option" where
  "calculateFlightPath dynamics rest0 env rocketParams =
    (case calculateCenterOfPressure rocketParams of
       Inl error \<Rightarrow> (rocketParams, None)
     | Inr result \<Rightarrow>
         let centerOfPressure = result;
             rocketParams2 = rocketParams\<lparr> RocketParams.finCp :=
                                Some (CenterOfPressure.finCp centerOfPressure) \<rparr>
         in (rocketParams2,
             while_option loopCondition (simulationStep (dynamics rocketParams2) env)
               (initialState env rest0)))"


subsection \<open>Loop invariants\<close>

text \<open>The clock and the log: the time is \<open>dt\<close> times the number of samples,
  at most 1000 samples are recorded, and the sample times increase and stay
  below the clock.\<close>

definition clockInvariant :: "'a SimState \<Rightarrow> bool" where
  "clockInvariant s =
    (SimState.time s = dt * real (length (data s))
     \<and> length (data s) \<le> 1000
     \<and> sorted_wrt (<) (map FlightSample.time (data s))
     \<and> (\<forall>smp \<in> set (data s). FlightSample.time smp < SimState.time s))"


text \<open>The order in which two samples may follow each other, as far as the
  parachute goes; and the parachute invariant of the loop.\<close>

definition parachuteOrder :: "FlightSample \<Rightarrow> FlightSample \<Rightarrow> bool" where
  "parachuteOrder a b =
    ((FlightSample.isParachuteEjected a \<longrightarrow> FlightSample.isParachuteEjected b)
     \<and> (FlightSample.isParachuteActive a \<longrightarrow> FlightSample.isParachuteActive b)
     \<and> FlightSample.parachuteDeploymentProgress a \<le> FlightSample.parachuteDeploymentProgress b)"

definition parachuteInvariant :: "FlightEnv \<Rightarrow> 'a SimState \<Rightarrow> bool" where
  "parachuteInvariant env s =
    (0 \<le> SimState.parachuteDeploymentProgress s
     \<and> SimState.parachuteDeploymentProgress s \<le> 1
     \<and> (SimState.isParachuteActive s \<longrightarrow> SimState.parachuteDeploymentProgress s = 1)
     \<and> (SimState.isParachuteEjected s \<longrightarrow> parachuteEjectionTime env \<le> SimState.time s)
     \<and> (\<not> SimState.isParachuteActive s \<longrightarrow>
           SimState.parachuteDeploymentProgress s
             \<le> max 0 (min 1 (SimState.time s - parachuteEjectionTime env)))
     \<and> sorted_wrt parachuteOrder (data s)
     \<and> (\<forall>smp \<in> set (data s).
           (FlightSample.isParachuteEjected smp \<longrightarrow> SimState.isParachuteEjected s)
           \<and> (FlightSample.isParachuteActive smp \<longrightarrow> SimState.isParachuteActive s)
           \<and> FlightSample.parachuteDeploymentProgress smp \<le> SimState.parachuteDeploymentProgress s
           \<and> 0 \<le> FlightSample.parachuteDeploymentProgress smp
           \<and> FlightSample.parachuteDeploymentProgress smp \<le> 1
           \<and> (FlightSample.isParachuteActive smp
                 \<longrightarrow> FlightSample.parachuteDeploymentProgress smp = 1)))"

section \<open>Example inputs\<close>

text \<open>The rocket of the specification's example scenario (cone nose of 100 mm,
  body of 400 mm by 40 mm, four fins of 60 mm with chords of 80 mm and 40 mm
  swept by 20 mm, 2 mm thick, 200 g, centre of gravity at 250 mm, motor C6-5),
  its fins as the loop hands them to the deflection model, and a fin material.\<close>

definition exampleRocket :: RocketParams where
  "exampleRocket =
    \<lparr> noseShape = ''cone'', noseHeight = Num 100, bodyHeight = Num 400, bodyWidth = Num 40,
      finHeight = Num 60, finBaseWidth = Num 80, finTipWidth = Num 40, finSweepLength = Num 20,
      finThickness = Num 2, finMaterial = ''balsa'', finCount = Some (Num 4),
      selectedMotor = ''C6-5'', selectedParachute = ''p300'',
      weight = Num 200, centerOfGravity = Num 250, finCp = None \<rparr>"

definition exampleFins :: FinParams where
  "exampleFins =
    \<lparr> FinParams.finHeight = Num 60, FinParams.finBaseWidth = Num 80,
      FinParams.finTipWidth = Num 40, FinParams.finThickness = Num 2,
      FinParams.finSweepLength = Num 20 \<rparr>"

definition exampleMaterial :: Material where
  "exampleMaterial = \<lparr> G = Num 230000000, E = Num 3000000000 \<rparr>"


text \<open>A flight without thrust in still air: gravity is the only force and the
  attitude does not change. The motor has no thrust samples, the rail has length
  0, and the ejection delay is chosen so that the parachute is ejected from the
  first iteration and fully deployed at 0.04 s.\<close>

definition fallDynamics :: "RocketParams \<Rightarrow> unit SimState \<Rightarrow> unit StepDynamics" where
  "fallDynamics rocketParams s =
    \<lparr> StepDynamics.ax = 0, StepDynamics.ay = - 9.81, StepDynamics.torque = 0,
      StepDynamics.omega = SimState.omega s,
      StepDynamics.angularVelocity = SimState.angularVelocity s,
      StepDynamics.angularAcceleration = 0, StepDynamics.angleChangePerDt2 = 0,
      StepDynamics.finDeflection = 0, StepDynamics.effectiveWindSpeed = 0,
      StepDynamics.rest = () \<rparr>"

definition fallEnv :: FlightEnv where
  "fallEnv = \<lparr> angle = 0, thrustData = [], parachuteDelay = - 0.96, launchRailLength = 0 \<rparr>"

section \<open>Sign of the moments\<close>

text \<open>Whatever the magnitude is the absolute value of, the floor keeps the sign
  chosen by the test, and so does the factor 1.2 of the lift moment.\<close>

lemma negative_under_condition:
  assumes "fm = (if c then - Math_abs X else Math_abs X)"
      and "r = (if belowFloor fm then Math_sign fm * MIN_MOMENT
                else if P then fm * Num 1.2 else fm)"
  shows "(r < Num 0) = (c \<and> Num 0 < Math_abs r)"
    and "(Num 0 < r) = (\<not> c \<and> Num 0 < Math_abs r)"
  using assms
  by (cases X; auto simp: belowFloor_def MIN_MOMENT_def sgn_if split: if_splits)+

lemma negative_under_condition_plain:
  assumes "fm = (if c then - Math_abs X else Math_abs X)"
      and "r = (if belowFloor fm then Math_sign fm * MIN_MOMENT else fm)"
  shows "(r < Num 0) = (c \<and> Num 0 < Math_abs r)"
    and "(Num 0 < r) = (\<not> c \<and> Num 0 < Math_abs r)"
  using assms
  by (cases X; auto simp: belowFloor_def MIN_MOMENT_def sgn_if split: if_splits)+

lemma positive_under_condition:
  assumes "fm = (if c then Math_abs X else - Math_abs X)"
      and "r = (if belowFloor fm then Math_sign fm * MIN_MOMENT else fm)"
  shows "(Num 0 < r) = (c \<and> Num 0 < Math_abs r)"
    and "(r < Num 0) = (\<not> c \<and> Num 0 < Math_abs r)"
  using assms
  by (cases X; auto simp: belowFloor_def MIN_MOMENT_def sgn_if split: if_splits)+

lemma lift_moment_sign:
  "(calculateLiftMoment v w fa sa ac cg < Num 0) =
     (signCondition ac cg (w - fa) \<and> Num 0 < Math_abs (calculateLiftMoment v w fa sa ac cg))"
  "(Num 0 < calculateLiftMoment v w fa sa ac cg) =
     (\<not> signCondition ac cg (w - fa) \<and> Num 0 < Math_abs (calculateLiftMoment v w fa sa ac cg))"
  by (rule negative_under_condition [where P = "Num 0.5 < Math_abs (w - fa)"];
      simp add: calculateLiftMoment_def Let_def)+

lemma drag_moment_v1_sign:
  "(calculateDragMoment_v1 v w fa sa ac cg < Num 0) =
     (signCondition ac cg (w - fa) \<and> Num 0 < Math_abs (calculateDragMoment_v1 v w fa sa ac cg))"
  "(Num 0 < calculateDragMoment_v1 v w fa sa ac cg) =
     (\<not> signCondition ac cg (w - fa) \<and> Num 0 < Math_abs (calculateDragMoment_v1 v w fa sa ac cg))"
  by (rule negative_under_condition_plain; simp add: calculateDragMoment_v1_def Let_def)+

lemma drag_moment_sign:
  "(calculateDragMoment v w fa bd ac cg < Num 0) =
     (signCondition ac cg (w - fa) \<and> Num 0 < Math_abs (calculateDragMoment v w fa bd ac cg))"
  "(Num 0 < calculateDragMoment v w fa bd ac cg) =
     (\<not> signCondition ac cg (w - fa) \<and> Num 0 < Math_abs (calculateDragMoment v w fa bd ac cg))"
  by (rule negative_under_condition_plain; simp add: calculateDragMoment_def Let_def)+

lemma wind_moment_sign:
  "(Num 0 < calculateWindMoment nh bd bh ws w tfa cp cg) =
     (signCondition cp cg ws \<and> Num 0 < Math_abs (calculateWindMoment nh bd bh ws w tfa cp cg))"
  "(calculateWindMoment nh bd bh ws w tfa cp cg < Num 0) =
     (\<not> signCondition cp cg ws \<and> Num 0 < Math_abs (calculateWindMoment nh bd bh ws w tfa cp cg))"
  by (rule positive_under_condition; simp add: calculateWindMoment_def Let_def)+

lemma thrust_moment_sign:
  "(Num 0 < calculateThrustMoment th cg w fa rp) =
     (signCondition (noseHeight rp + bodyHeight rp) cg (w - fa)
        \<and> Num 0 < Math_abs (calculateThrustMoment th cg w fa rp))"
  "(calculateThrustMoment th cg w fa rp < Num 0) =
     (\<not> signCondition (noseHeight rp + bodyHeight rp) cg (w - fa)
        \<and> Num 0 < Math_abs (calculateThrustMoment th cg w fa rp))"
  by (rule positive_under_condition; simp add: calculateThrustMoment_def Let_def)+

text \<open>
  Claim C1, as stated: every moment function returns a negative moment when
  (application point >= centre of gravity and driving angle < 0) or (application
  point < centre of gravity and driving angle >= 0). It fails for the thrust
  moment: with a thrust of 10 N on the example rocket (thrust applied at
  500 mm, centre of gravity at 250 mm) and an angle of attack of -pi/4 the test
  holds and the moment is +1.25.
\<close>

theorem thrust_moment_positive_under_condition:
  "signCondition (noseHeight exampleRocket + bodyHeight exampleRocket) (Num 250)
       (Num (- (pi / 4)) - Num 0)
   \<and> calculateThrustMoment (Num 10) (Num 250) (Num (- (pi / 4))) (Num 0) exampleRocket
       = Num 1.25"
  by (simp add: calculateThrustMoment_def Let_def exampleRocket_def signCondition_def
        belowFloor_def MIN_MOMENT_def sin_45 cos_45)

text \<open>
  Claim C1, amended: a moment of zero magnitude apart, the lift moment and the
  drag moment (both variants) are negative exactly when the test holds and
  positive exactly when it fails; the wind moment (application point: the centre
  of pressure, driving quantity: the wind speed) and the thrust moment
  (application point: nose height plus body height, driving angle: the angle of
  attack) have the opposite convention: positive exactly when the test holds,
  negative exactly when it fails.
\<close>

theorem moment_sign_conventions:
  "((calculateLiftMoment v w fa sa ac cg < Num 0) =
      (signCondition ac cg (w - fa) \<and> Num 0 < Math_abs (calculateLiftMoment v w fa sa ac cg)))
   \<and> ((Num 0 < calculateLiftMoment v w fa sa ac cg) =
      (\<not> signCondition ac cg (w - fa) \<and> Num 0 < Math_abs (calculateLiftMoment v w fa sa ac cg)))
   \<and> ((calculateDragMoment_v1 v w fa sa ac cg < Num 0) =
      (signCondition ac cg (w - fa) \<and> Num 0 < Math_abs (calculateDragMoment_v1 v w fa sa ac cg)))
   \<and> ((Num 0 < calculateDragMoment_v1 v w fa sa ac cg) =
      (\<not> signCondition ac cg (w - fa) \<and> Num 0 < Math_abs (calculateDragMoment_v1 v w fa sa ac cg)))
   \<and> ((calculateDragMoment v w fa bd ac cg < Num 0) =
      (signCondition ac cg (w - fa) \<and> Num 0 < Math_abs (calculateDragMoment v w fa bd ac cg)))
   \<and> ((Num 0 < calculateDragMoment v w fa bd ac cg) =
      (\<not> signCondition ac cg (w - fa) \<and> Num 0 < Math_abs (calculateDragMoment v w fa bd ac cg)))
   \<and> ((Num 0 < calculateWindMoment nh bd bh ws w tfa cp cg) =
      (signCondition cp cg ws \<and> Num 0 < Math_abs (calculateWindMoment nh bd bh ws w tfa cp cg)))
   \<and> ((calculateWindMoment nh bd bh ws w tfa cp cg < Num 0) =
      (\<not> signCondition cp cg ws \<and> Num 0 < Math_abs (calculateWindMoment nh bd bh ws w tfa cp cg)))
   \<and> ((Num 0 < calculateThrustMoment th cg w fa rp) =
      (signCondition (noseHeight rp + bodyHeight rp) cg (w - fa)
         \<and> Num 0 < Math_abs (calculateThrustMoment th cg w fa rp)))
   \<and> ((calculateThrustMoment th cg w fa rp < Num 0) =
      (\<not> signCondition (noseHeight rp + bodyHeight rp) cg (w - fa)
         \<and> Num 0 < Math_abs (calculateThrustMoment th cg w fa rp)))"
  by (intro conjI)
     (rule lift_moment_sign drag_moment_v1_sign drag_moment_sign wind_moment_sign
        thrust_moment_sign)+

theorem moment_sign_conventions_witness:
  "calculateLiftMoment (Num 10) (Num (- 0.1)) (Num 0) (Num 0.03) (Num 300) (Num 250) < Num 0"
proof -
  have b: "signCondition (Num 300) (Num 250) (Num (- 0.1) - Num 0)"
    by (simp add: signCondition_def)
  have c: "Num 0 < Math_abs (calculateLiftMoment (Num 10) (Num (- 0.1)) (Num 0) (Num 0.03)
                                (Num 300) (Num 250))"
    by (simp add: calculateLiftMoment_def Let_def signCondition_def belowFloor_def MIN_MOMENT_def)
  show ?thesis
    using b c
      moment_sign_conventions [of "Num 10" "Num (- 0.1)" "Num 0" "Num 0.03" "Num 300" "Num 250",
        THEN conjunct1]
    by simp
qed

text \<open>The fin moment (part_001, lines 789-843) is not part of this statement: it
  converts \<open>finCp\<close> to metres before the test (line 798) and compares the
  result with the centre of gravity, which is in millimetres (lines 829-830), so
  the point it tests is \<open>finCp / 1000\<close> and not the application point.\<close>

lemma fin_moment_sign:
  "(Num 0 < calculateFinMoment fh fb fc v w fa fcp cg) =
     (signCondition (mmToM fcp) cg (w - fa)
        \<and> Num 0 < Math_abs (calculateFinMoment fh fb fc v w fa fcp cg))"
  "(calculateFinMoment fh fb fc v w fa fcp cg < Num 0) =
     (\<not> signCondition (mmToM fcp) cg (w - fa)
        \<and> Num 0 < Math_abs (calculateFinMoment fh fb fc v w fa fcp cg))"
  by (rule positive_under_condition; simp add: calculateFinMoment_def Let_def)+

section \<open>Range of the fin speeds\<close>

text \<open>
  Claim C2 (the code does not keep it): the divergence speed is to lie in
  [20, 300] and the flutter speed in [30, 400] for all finite inputs, degenerate
  ones included. With both chords of the example rocket set to 0 the divergence
  speed is NaN, since \<open>Math.max\<close> and \<open>Math.min\<close> pass NaN on; with the
  body lengthened to 3500 mm as well, the first flutter variant leaves through
  its unclamped fallback with 472; with a fin height of 0 and equal chords the
  later flutter variant returns NaN.
\<close>

theorem fin_speeds_outside_range:
  "calculateFinDivergenceSpeed exampleMaterial
      (exampleRocket\<lparr> finBaseWidth := Num 0, finTipWidth := Num 0 \<rparr>) = NaN
   \<and> calculateFinFlutterSpeed_v1 exampleMaterial
      (exampleRocket\<lparr> finBaseWidth := Num 0, finTipWidth := Num 0, bodyHeight := Num 3500 \<rparr>)
        = Num 472
   \<and> calculateFinFlutterSpeed exampleMaterial
      (exampleRocket\<lparr> finHeight := Num 0, finBaseWidth := Num 50, finTipWidth := Num 50 \<rparr>)
        = NaN"
  by (simp add: calculateFinDivergenceSpeed_def calculateFinFlutterSpeed_v1_def
        calculateFinFlutterSpeed_def exampleMaterial_def exampleRocket_def mmToM_def Let_def
        power2_eq_square)

theorem fin_speeds_outside_range_witness:
  "\<not> Num 20 \<le> calculateFinDivergenceSpeed exampleMaterial
                   (exampleRocket\<lparr> finBaseWidth := Num 0, finTipWidth := Num 0 \<rparr>)
   \<and> Num 400 < calculateFinFlutterSpeed_v1 exampleMaterial
        (exampleRocket\<lparr> finBaseWidth := Num 0, finTipWidth := Num 0, bodyHeight := Num 3500 \<rparr>)"
  using fin_speeds_outside_range by simp

section \<open>Projected areas and volumes\<close>

text \<open>
  Claim C8: when the argument is not an object, or is an object in which one of
  the eight required fields is missing or is not a number, both variants of
  \<open>calculateProjectedArea\<close> return the zeroed profile; and whatever the
  argument is, they return an object and throw no error (the object test comes
  before the properties are read).
\<close>

theorem projected_area_rejects_invalid_input:
  "((\<forall>ps. v \<noteq> JObject ps) \<or> (\<exists>ps. v = JObject ps \<and> missingNumericField (properties ps))
      \<longrightarrow> calculateProjectedArea v = Inr zeroedProfile
          \<and> calculateProjectedArea_v1 v = Inr zeroedProfile)
   \<and> (\<exists>p q. calculateProjectedArea w = Inr p \<and> calculateProjectedArea_v1 w = Inr q)"
proof (intro conjI impI)
  assume "(\<forall>ps. v \<noteq> JObject ps) \<or> (\<exists>ps. v = JObject ps \<and> missingNumericField (properties ps))"
  then show "calculateProjectedArea v = Inr zeroedProfile"
    by (cases v) (auto simp: calculateProjectedArea_def)
next
  assume "(\<forall>ps. v \<noteq> JObject ps) \<or> (\<exists>ps. v = JObject ps \<and> missingNumericField (properties ps))"
  then show "calculateProjectedArea_v1 v = Inr zeroedProfile"
    by (cases v) (auto simp: calculateProjectedArea_v1_def)
next
  show "\<exists>p q. calculateProjectedArea w = Inr p \<and> calculateProjectedArea_v1 w = Inr q"
    by (cases w) (auto simp: calculateProjectedArea_def calculateProjectedArea_v1_def Let_def)
qed

theorem projected_area_rejects_invalid_input_witness:
  "calculateProjectedArea JNull = Inr zeroedProfile
   \<and> calculateProjectedArea_v1 (JObject [(''noseHeight'', JString ''100'')]) = Inr zeroedProfile"
proof -
  have a: "\<forall>ps. JNull \<noteq> JObject ps"
    by simp
  have b: "missingNumericField (properties [(''noseHeight'', JString ''100'')])"
    by (simp add: missingNumericField_def properties_def)
  show ?thesis
    using a b projected_area_rejects_invalid_input [of JNull]
      projected_area_rejects_invalid_input [of "JObject [(''noseHeight'', JString ''100'')]"]
    by blast
qed




text \<open>The hypotheses of the amended claim are needed. A field can be a number
  and negative: with a body height of -10000 the side area of the four-fin
  example rocket is negative. A field can be a number and infinite: with an
  infinite body height and a body width of 0 the body area is NaN, and so is the
  side area.\<close>

lemma negative_height_side_area_negative:
  "(case calculateProjectedArea (toObject (exampleRocket\<lparr> bodyHeight := Num (- 10000) \<rparr>)) of
      Inr areas \<Rightarrow> sideArea areas < Num 0
    | Inl error \<Rightarrow> False)"
  by (simp add: calculateProjectedArea_def toObject_def exampleRocket_def
        properties_def missingNumericField_def mmToM_def Let_def)

lemma infinite_height_side_area_not_a_number:
  "(case calculateProjectedArea
           (toObject (exampleRocket\<lparr> bodyHeight := PosInf, bodyWidth := Num 0 \<rparr>)) of
      Inr areas \<Rightarrow> sideArea areas = NaN \<and> \<not> Num 0 \<le> sideArea areas
    | Inl error \<Rightarrow> False)"
  by (simp add: calculateProjectedArea_def toObject_def exampleRocket_def
        properties_def missingNumericField_def mmToM_def Let_def)

section \<open>The flight loop: one iteration\<close>

text \<open>What an iteration does to the fields that the claims are about.\<close>

lemma updateParachute_frame [simp]:
  "SimState.time (updateParachute env s) = SimState.time s"
  "data (updateParachute env s) = data s"
  "x (updateParachute env s) = x s"
  "y (updateParachute env s) = y s"
  "prev_vx (updateParachute env s) = prev_vx s"
  "prev_vy (updateParachute env s) = prev_vy s"
  by (simp_all add: updateParachute_def Let_def)

lemma deploymentCompletes_frame [simp]:
  "deploymentCompletes env (s\<lparr> SimState.isParachuteEjected := e \<rparr>) = deploymentCompletes env s"
  "deploymentCompletes env (s\<lparr> SimState.parachuteDeploymentProgress := p \<rparr>) = deploymentCompletes env s"
  "deploymentCompletes env (s\<lparr> prev_vx := a \<rparr>) = deploymentCompletes env s"
  "deploymentCompletes env (s\<lparr> prev_vy := b \<rparr>) = deploymentCompletes env s"
  by (simp_all add: deploymentCompletes_def)

lemma updateParachute_active:
  "SimState.isParachuteActive (updateParachute env s) =
     (SimState.isParachuteActive s \<or> parachuteActiveTime env \<le> SimState.time s)"
  by (auto simp: updateParachute_def Let_def deploymentCompletes_def)


lemma step_time [simp]:
  "SimState.time (simulationStep dynamics env s) = SimState.time s + dt"
  by (simp add: simulationStep_def Let_def)

lemma step_active:
  "SimState.isParachuteActive (simulationStep dynamics env s) =
     (SimState.isParachuteActive s \<or> parachuteActiveTime env \<le> SimState.time s)"
  by (simp add: simulationStep_def Let_def updateParachute_active)

lemma step_data_length [simp]:
  "length (data (simulationStep dynamics env s)) = Suc (length (data s))"
  by (simp add: simulationStep_def Let_def)

lemma updateParachute_ejected:
  "SimState.isParachuteEjected (updateParachute env s) =
     (SimState.isParachuteEjected s \<or> parachuteEjectionTime env \<le> SimState.time s)"
  by (auto simp: updateParachute_def Let_def)

lemma updateParachute_progress:
  "SimState.parachuteDeploymentProgress (updateParachute env s) =
     (if deploymentCompletes env s then 1
      else if (SimState.isParachuteEjected s \<or> parachuteEjectionTime env \<le> SimState.time s)
              \<and> \<not> SimState.isParachuteActive s
           then min 1 ((SimState.time s - parachuteEjectionTime env) / parachuteDeployTime)
      else SimState.parachuteDeploymentProgress s)"
  by (auto simp: updateParachute_def Let_def)

lemma step_ejected:
  "SimState.isParachuteEjected (simulationStep dynamics env s) =
     (SimState.isParachuteEjected s \<or> parachuteEjectionTime env \<le> SimState.time s)"
  by (simp add: simulationStep_def Let_def updateParachute_ejected)

lemma step_progress:
  "SimState.parachuteDeploymentProgress (simulationStep dynamics env s) =
     (if deploymentCompletes env s then 1
      else if (SimState.isParachuteEjected s \<or> parachuteEjectionTime env \<le> SimState.time s)
              \<and> \<not> SimState.isParachuteActive s
           then min 1 ((SimState.time s - parachuteEjectionTime env) / parachuteDeployTime)
      else SimState.parachuteDeploymentProgress s)"
  by (simp add: simulationStep_def Let_def updateParachute_progress)



lemma step_data:
  "data (simulationStep dynamics env s) = data s @ [last (data (simulationStep dynamics env s))]"
  by (simp add: simulationStep_def Let_def)

lemma step_sample_time:
  "FlightSample.time (last (data (simulationStep dynamics env s))) = SimState.time s"
  by (simp add: simulationStep_def Let_def)

lemma step_sample_flags:
  "FlightSample.isParachuteEjected (last (data (simulationStep dynamics env s)))
     = SimState.isParachuteEjected (simulationStep dynamics env s)"
  "FlightSample.isParachuteActive (last (data (simulationStep dynamics env s)))
     = SimState.isParachuteActive (simulationStep dynamics env s)"
  "FlightSample.parachuteDeploymentProgress (last (data (simulationStep dynamics env s)))
     = SimState.parachuteDeploymentProgress (simulationStep dynamics env s)"
  by (simp_all add: simulationStep_def Let_def)



section \<open>The flight loop: invariants and termination\<close>

lemma clockInvariant_init: "clockInvariant (initialState env rest0)"
  by (simp add: clockInvariant_def initialState_def)

lemma clockInvariant_step:
  assumes "clockInvariant s" and "loopCondition s"
  shows "clockInvariant (simulationStep dynamics env s)"
proof -
  have len: "length (data s) < 1000"
    using assms by (simp add: clockInvariant_def loopCondition_def MAX_TIME_def dt_def)
  have d: "data (simulationStep dynamics env s) = data s @ [last (data (simulationStep dynamics env s))]"
    by (rule step_data)
  show ?thesis
    unfolding clockInvariant_def
    apply (subst (2 3 4) d)
    using assms(1) len
    by (auto simp: clockInvariant_def step_sample_time sorted_wrt_append dt_def algebra_simps)
qed

lemma flight_loop_halts:
  "\<exists>s'. while_option loopCondition (simulationStep dynamics env) (initialState env rest0) = Some s'"
proof (rule measure_while_option_Some [where P = clockInvariant and f = "\<lambda>s. 1000 - length (data s)"])
  fix s :: "'a SimState"
  assume inv: "clockInvariant s" and cond: "loopCondition s"
  have "length (data s) < 1000"
    using inv cond by (simp add: clockInvariant_def loopCondition_def MAX_TIME_def dt_def)
  then show "clockInvariant (simulationStep dynamics env s)
               \<and> 1000 - length (data (simulationStep dynamics env s)) < 1000 - length (data s)"
    using clockInvariant_step [OF inv cond] by simp
next
  show "clockInvariant (initialState env rest0)"
    by (rule clockInvariant_init)
qed


lemma parachuteInvariant_init: "parachuteInvariant env (initialState env rest0)"
  by (simp add: parachuteInvariant_def initialState_def)

lemma parachuteInvariant_step:
  assumes "parachuteInvariant env s"
  shows "parachuteInvariant env (simulationStep dynamics env s)"
  unfolding parachuteInvariant_def
  apply (subst (1 2) step_data)
  using assms
  apply (simp add: parachuteInvariant_def sorted_wrt_append step_sample_flags parachuteOrder_def
        step_ejected step_active step_progress deploymentCompletes_def parachuteDeployTime_def
        parachuteActiveTime_def dt_def)
  apply (intro conjI impI allI ballI)
  apply (auto simp: min_def max_def split: if_splits)
  done

lemma projected_area_of_record:
  "\<exists>areas. calculateProjectedArea (toObject rocketParams) = Inr areas"
  by (simp add: calculateProjectedArea_def toObject_def Let_def)

lemma center_of_pressure_of_record:
  "\<exists>cp. calculateCenterOfPressure rocketParams = Inr cp"
proof -
  obtain areas where "calculateProjectedArea (toObject rocketParams) = Inr areas"
    using projected_area_of_record by blast
  then show ?thesis
    by (simp add: calculateCenterOfPressure_def Let_def)
qed

lemma flight_path_loop:
  "\<exists>rocketParams2. snd (calculateFlightPath dynamics rest0 env rocketParams)
      = while_option loopCondition (simulationStep (dynamics rocketParams2) env) (initialState env rest0)"
proof -
  obtain cp where "calculateCenterOfPressure rocketParams = Inr cp"
    using center_of_pressure_of_record by blast
  then show ?thesis
    by (auto simp: calculateFlightPath_def Let_def)
qed

lemma loop_result:
  assumes step: "\<And>dyn s. P s \<Longrightarrow> loopCondition s \<Longrightarrow> P (simulationStep dyn env s)"
      and init: "P (initialState env rest0)"
  shows "\<exists>s'. while_option loopCondition (simulationStep dynamics env) (initialState env rest0) = Some s'
           \<and> P s' \<and> \<not> loopCondition s'"
proof -
  obtain s' where s': "while_option loopCondition (simulationStep dynamics env) (initialState env rest0) = Some s'"
    using flight_loop_halts [of dynamics env rest0] by (elim exE)
  have "P s'"
  proof (rule while_option_rule [where P = P, OF _ s'])
    show "P (simulationStep dynamics env s)" if "P s" and "loopCondition s" for s
      using that by (rule step)
  qed (rule init)
  moreover have "\<not> loopCondition s'"
    by (rule while_option_stop [OF s'])
  ultimately show ?thesis
    using s' by blast
qed

lemma flight_result:
  assumes step: "\<And>dyn s. P s \<Longrightarrow> loopCondition s \<Longrightarrow> P (simulationStep dyn env s)"
      and init: "P (initialState env rest0)"
  shows "(\<exists>s'. snd (calculateFlightPath_v1 dynamics rest0 env rocketParams) = Some s'
            \<and> P s' \<and> \<not> loopCondition s')
       \<and> (\<exists>s'. snd (calculateFlightPath dynamics rest0 env rocketParams) = Some s'
            \<and> P s' \<and> \<not> loopCondition s')"
proof
  show "\<exists>s'. snd (calculateFlightPath_v1 dynamics rest0 env rocketParams) = Some s'
            \<and> P s' \<and> \<not> loopCondition s'"
    using loop_result [of P env rest0 "dynamics rocketParams", OF step init]
    by (simp add: calculateFlightPath_v1_def)
next
  obtain rocketParams2 where "snd (calculateFlightPath dynamics rest0 env rocketParams)
      = while_option loopCondition (simulationStep (dynamics rocketParams2) env) (initialState env rest0)"
    using flight_path_loop [of dynamics rest0 env rocketParams] by (elim exE)
  then show "\<exists>s'. snd (calculateFlightPath dynamics rest0 env rocketParams) = Some s'
            \<and> P s' \<and> \<not> loopCondition s'"
    using loop_result [of P env rest0 "dynamics rocketParams2", OF step init]
    by simp
qed

text \<open>The run of the free fall of the example inputs: the height is negative
  after the first iteration, so the loop runs while the time is below 0.1 s and
  records five samples.\<close>

lemma sqrt_gt_hundred [simp]: "(100 < sqrt c) = (10000 < c)"
proof -
  have "(sqrt 10000 < sqrt c) = (10000 < c)"
    by (rule real_sqrt_less_iff)
  moreover have "sqrt 10000 = 100"
    using real_sqrt_abs [of 100] by simp
  ultimately show ?thesis
    by simp
qed


lemma fall_run_parachute_states:
  "map_option (\<lambda>s. map (\<lambda>smp. (FlightSample.isParachuteEjected smp, FlightSample.isParachuteActive smp,
        FlightSample.parachuteDeploymentProgress smp, FlightSample.vy smp)) (data s))
      (snd (calculateFlightPath_v1 fallDynamics () fallEnv exampleRocket))
     = Some [(True, False, 0.96, - 0.1962), (True, False, 0.98, - 0.3924), (True, True, 1, - 0.23544),
              (True, True, 1, - 0.43164), (True, True, 1, - 0.62784)]"
  by (simp add: calculateFlightPath_v1_def while_option_unfold loopCondition_def initialState_def
        simulationStep_def updateParachute_def deploymentCompletes_def fallDynamics_def fallEnv_def
        parachuteActiveTime_def parachuteEjectionTime_def thrustEndTime_def parachuteDeployTime_def
        dt_def MAX_TIME_def MAX_SPEED_def MAX_ANGULAR_VELOCITY_def Let_def)





text \<open>
  Claim C10: across the samples of every run, in both variants, a sample with
  \<open>isParachuteEjected\<close> is followed only by samples with it, the same for
  \<open>isParachuteActive\<close>, \<open>parachuteDeploymentProgress\<close> lies in [0, 1]
  and does not decrease from one sample to a later one, and a sample with
  \<open>isParachuteActive\<close> has a progress of 1.
\<close>

theorem parachute_state_monotone:
  "(\<exists>s'. snd (calculateFlightPath_v1 dynamics rest0 env rocketParams) = Some s'
        \<and> (\<forall>i j. i < j \<and> j < length (data s') \<longrightarrow>
              (FlightSample.isParachuteEjected (data s' ! i)
                 \<longrightarrow> FlightSample.isParachuteEjected (data s' ! j))
            \<and> (FlightSample.isParachuteActive (data s' ! i)
                 \<longrightarrow> FlightSample.isParachuteActive (data s' ! j))
            \<and> FlightSample.parachuteDeploymentProgress (data s' ! i)
                 \<le> FlightSample.parachuteDeploymentProgress (data s' ! j))
        \<and> (\<forall>smp \<in> set (data s').
              0 \<le> FlightSample.parachuteDeploymentProgress smp
            \<and> FlightSample.parachuteDeploymentProgress smp \<le> 1
            \<and> (FlightSample.isParachuteActive smp
                 \<longrightarrow> FlightSample.parachuteDeploymentProgress smp = 1)))
   \<and> (\<exists>s'. snd (calculateFlightPath dynamics rest0 env rocketParams) = Some s'
        \<and> (\<forall>i j. i < j \<and> j < length (data s') \<longrightarrow>
              (FlightSample.isParachuteEjected (data s' ! i)
                 \<longrightarrow> FlightSample.isParachuteEjected (data s' ! j))
            \<and> (FlightSample.isParachuteActive (data s' ! i)
                 \<longrightarrow> FlightSample.isParachuteActive (data s' ! j))
            \<and> FlightSample.parachuteDeploymentProgress (data s' ! i)
                 \<le> FlightSample.parachuteDeploymentProgress (data s' ! j))
        \<and> (\<forall>smp \<in> set (data s').
              0 \<le> FlightSample.parachuteDeploymentProgress smp
            \<and> FlightSample.parachuteDeploymentProgress smp \<le> 1
            \<and> (FlightSample.isParachuteActive smp
                 \<longrightarrow> FlightSample.parachuteDeploymentProgress smp = 1)))"
proof -
  have final: "(\<forall>i j. i < j \<and> j < length (data s') \<longrightarrow>
              (FlightSample.isParachuteEjected (data s' ! i)
                 \<longrightarrow> FlightSample.isParachuteEjected (data s' ! j))
            \<and> (FlightSample.isParachuteActive (data s' ! i)
                 \<longrightarrow> FlightSample.isParachuteActive (data s' ! j))
            \<and> FlightSample.parachuteDeploymentProgress (data s' ! i)
                 \<le> FlightSample.parachuteDeploymentProgress (data s' ! j))
        \<and> (\<forall>smp \<in> set (data s').
              0 \<le> FlightSample.parachuteDeploymentProgress smp
            \<and> FlightSample.parachuteDeploymentProgress smp \<le> 1
            \<and> (FlightSample.isParachuteActive smp
                 \<longrightarrow> FlightSample.parachuteDeploymentProgress smp = 1))"
    if "parachuteInvariant env s'" for s' :: "'a SimState"
    using that
    by (auto simp: parachuteInvariant_def sorted_wrt_iff_nth_less parachuteOrder_def)
  show ?thesis
    using flight_result [of "parachuteInvariant env" env rest0 dynamics rocketParams,
        OF parachuteInvariant_step parachuteInvariant_init] final
    by blast
qed

theorem parachute_state_monotone_witness:
  "\<exists>s'. snd (calculateFlightPath_v1 fallDynamics () fallEnv exampleRocket) = Some s'
      \<and> map (\<lambda>smp. (FlightSample.isParachuteEjected smp, FlightSample.isParachuteActive smp,
                     FlightSample.parachuteDeploymentProgress smp)) (data s')
          = [(True, False, 0.96), (True, False, 0.98), (True, True, 1), (True, True, 1), (True, True, 1)]
      \<and> FlightSample.parachuteDeploymentProgress (data s' ! 1)
          \<le> FlightSample.parachuteDeploymentProgress (data s' ! 2)"
proof -
  obtain s' where s': "snd (calculateFlightPath_v1 fallDynamics () fallEnv exampleRocket) = Some s'"
    and mono: "\<forall>i j. i < j \<and> j < length (data s') \<longrightarrow>
              (FlightSample.isParachuteEjected (data s' ! i)
                 \<longrightarrow> FlightSample.isParachuteEjected (data s' ! j))
            \<and> (FlightSample.isParachuteActive (data s' ! i)
                 \<longrightarrow> FlightSample.isParachuteActive (data s' ! j))
            \<and> FlightSample.parachuteDeploymentProgress (data s' ! i)
                 \<le> FlightSample.parachuteDeploymentProgress (data s' ! j)"
    using parachute_state_monotone [of fallDynamics "()" fallEnv exampleRocket] by blast
  have states: "map (\<lambda>smp. (FlightSample.isParachuteEjected smp, FlightSample.isParachuteActive smp,
        FlightSample.parachuteDeploymentProgress smp, FlightSample.vy smp)) (data s')
     = [(True, False, 0.96, - 0.1962), (True, False, 0.98, - 0.3924), (True, True, 1, - 0.23544),
              (True, True, 1, - 0.43164), (True, True, 1, - 0.62784)]"
    using fall_run_parachute_states s' by simp
  have "length (map (\<lambda>smp. (FlightSample.isParachuteEjected smp, FlightSample.isParachuteActive smp,
        FlightSample.parachuteDeploymentProgress smp, FlightSample.vy smp)) (data s')) = 5"
    unfolding states by simp
  then have len: "length (data s') = 5"
    by simp
  have "map (\<lambda>smp. (FlightSample.isParachuteEjected smp, FlightSample.isParachuteActive smp,
                     FlightSample.parachuteDeploymentProgress smp)) (data s')
          = map (\<lambda>(a, b, c, d). (a, b, c)) (map (\<lambda>smp. (FlightSample.isParachuteEjected smp, FlightSample.isParachuteActive smp,
        FlightSample.parachuteDeploymentProgress smp, FlightSample.vy smp)) (data s'))"
    by simp
  also have "\<dots> = [(True, False, 0.96), (True, False, 0.98), (True, True, 1), (True, True, 1), (True, True, 1)]"
    unfolding states by simp
  finally have flags: "map (\<lambda>smp. (FlightSample.isParachuteEjected smp, FlightSample.isParachuteActive smp,
                     FlightSample.parachuteDeploymentProgress smp)) (data s')
          = [(True, False, 0.96), (True, False, 0.98), (True, True, 1), (True, True, 1), (True, True, 1)]" .
  have "FlightSample.parachuteDeploymentProgress (data s' ! 1)
          \<le> FlightSample.parachuteDeploymentProgress (data s' ! 2)"
    using mono len by simp
  with s' flags show ?thesis
    by (intro exI [of _ s'] conjI)
qed

section \<open>The velocity reduction at full deployment\<close>







section \<open>The parameters after a run\<close>





section \<open>Fin deflection\<close>

lemma conclude_v1_bounded: "Math_abs (concludeDeflection_v1 outcome) \<le> Num 15"
proof (cases outcome)
  case (Inl e)
  then show ?thesis
    by (simp add: concludeDeflection_v1_def)
next
  case (Inr r)
  then show ?thesis
    by (cases r) (auto simp: concludeDeflection_v1_def)
qed

lemma conclude_bounded: "Math_abs (concludeDeflection outcome) \<le> Num 15"
proof (cases outcome)
  case (Inl e)
  then show ?thesis
    by (simp add: concludeDeflection_def)
next
  case (Inr r)
  then show ?thesis
    by (cases r) (auto simp: concludeDeflection_def)
qed

lemma example_raw_deflection:
  "rawDeflection_v1 (Num v) exampleMaterial exampleFins (Num (- 0.5))
     = Num (- (sin (1 / 2) * (min v 300 * min v 300) * (8829 * (3 / 50) ^ 4 / (8000000000000 * (1 / 500) ^ 3))))"
  by (simp add: rawDeflection_v1_def Let_def exampleMaterial_def exampleFins_def Math_PI_def
        power3_eq_cube)

text \<open>
  Claim C9 (the first variant does not keep it): the result of
  \<open>calculateFinDeflection\<close> is to be monotonically non-decreasing in the
  velocity. In the first variant (RocketPhysics.jsx, lines 603-674) the sine of
  the angle change is a factor of the load and the signed value is returned as
  long as its magnitude is at most 15, so for a negative angle change the result
  is negative and falls as the velocity rises: for the example fins and an angle
  change of -0.5 the result at 10 m/s is negative and the result at 20 m/s is
  below it. The later variant (part_001, lines 519-609, headed as the corrected
  version) computes the load from the velocity alone and returns a magnitude.
\<close>

theorem fin_deflection_decreases_for_negative_angle:
  "calculateFinDeflection_v1 (Num 20) exampleMaterial exampleFins (Num (- 0.5))
     < calculateFinDeflection_v1 (Num 10) exampleMaterial exampleFins (Num (- 0.5))
   \<and> calculateFinDeflection_v1 (Num 10) exampleMaterial exampleFins (Num (- 0.5)) < Num 0"
proof -
  have pos: "0 < sin (1 / 2 :: real)"
    using pi_ge_two by (intro sin_gt_zero) auto
  have le: "sin (1 / 2 :: real) \<le> 1"
    by (rule sin_le_one)
  define q :: real where "q = 8829 * (3 / 50) ^ 4 / (8000000000000 * (1 / 500) ^ 3)"
  have q: "0 < q" "q * 400 \<le> 15"
    by (simp_all add: q_def power3_eq_cube power4_eq_xxxx)
  define x :: real where "x = sin (1 / 2) * q"
  have "sin (1 / 2) * q \<le> 1 * q"
    using le q by (intro mult_right_mono) auto
  then have x_le: "x \<le> q"
    by (simp add: x_def)
  have x_pos: "0 < x"
    using pos q by (simp add: x_def)
  have r: "rawDeflection_v1 (Num v) exampleMaterial exampleFins (Num (- 0.5))
             = Num (- (x * (min v 300 * min v 300)))" for v
    unfolding x_def q_def example_raw_deflection by (simp add: algebra_simps)
  have small: "x * 400 \<le> 15"
    using x_le q by linarith
  show ?thesis
    unfolding calculateFinDeflection_v1_def r
    using small x_pos by (simp add: concludeDeflection_v1_def)
qed

text \<open>The other parts of the claim hold in both variants, for all arguments: the
  result is 0 when the magnitude of the velocity is below 0.001, its magnitude
  never exceeds 15, and it is 15 when the value computed in the \<open>try\<close> block
  is NaN.\<close>

lemma fin_deflection_zero_bounded_sentinel:
  "(Math_abs u < Num 0.001 \<longrightarrow>
      calculateFinDeflection_v1 u m fp a = Num 0 \<and> calculateFinDeflection u m fp a = Num 0)
   \<and> Math_abs (calculateFinDeflection_v1 u m fp a) \<le> Num 15
   \<and> Math_abs (calculateFinDeflection u m fp a) \<le> Num 15
   \<and> (\<not> Math_abs u < Num 0.001 \<and> isNaN (rawDeflection_v1 u m fp a)
        \<longrightarrow> calculateFinDeflection_v1 u m fp a = Num 15)
   \<and> (\<not> Math_abs u < Num 0.001 \<and> isNaN (computeDeflectionMm u m fp)
        \<longrightarrow> calculateFinDeflection u m fp a = Num 15)"
proof -
  have bounded_v1: "Math_abs (calculateFinDeflection_v1 u m fp a) \<le> Num 15"
    using conclude_v1_bounded by (simp add: calculateFinDeflection_v1_def)
  have bounded: "Math_abs (calculateFinDeflection u m fp a) \<le> Num 15"
    using conclude_bounded by (simp add: calculateFinDeflection_def)
  show ?thesis
    using bounded_v1 bounded
    by (auto simp: calculateFinDeflection_v1_def calculateFinDeflection_def
          concludeDeflection_v1_def concludeDeflection_def)
qed

text \<open>The later variant is monotone: for a fin of finite positive height with
  finite non-negative chords and a finite positive modulus, the value computed
  in its \<open>try\<close> block is a non-negative constant times the square of the
  velocity capped at 300, and the result is non-decreasing in a finite
  non-negative velocity, whatever the angle change is.\<close>

lemma mm_form:
  assumes fp: "FinParams.finHeight fp = Num h" "FinParams.finBaseWidth fp = Num b"
      "FinParams.finTipWidth fp = Num t" "FinParams.finThickness fp = Num th"
      "FinParams.finSweepLength fp = Num s"
    and pos: "0 < h" "0 \<le> b" "0 \<le> t"
    and mat: "Material.E m = Num e" "0 < e"
  shows "\<exists>K\<ge>0. \<forall>v. computeDeflectionMm (Num v) m fp = Num (K * (min v 300 * min v 300))"
proof -
  define sft where "sft = (if Num th = Num 0 \<or> Num th = NaN then Num 2 else Num th)"
  define farea where "farea = ((Num b + Num t) * Num 0.001) * (Num h * Num 0.001) / Num 2"
  define taper where "taper = (if Num 0 < Num h
            then Math_max (Num (- 0.9)) (Math_min (Num 0.9)
                   (((Num b * Num 0.001) - (Num t * Num 0.001)) / (Num h * Num 0.001)))
            else Num 0)"
  define sweep where "sweep = Math_atan ((Num s * Num 0.001 + Num 0.5 * Num t * Num 0.001
                          - Num 0.5 * Num b * Num 0.001) * Math_PI / (Num h * Num 0.001))"
  define I0 where "I0 = ((Num b + Num t) * Num 0.001 / Num 2 * Math_pow_int (sft * Num 0.001) 3) / Num 12"
  define I where "I = (if I0 < Num (1 / 10 ^ 12) then Num (1 / 10 ^ 12) else I0)"
  have decomposition:
    "computeDeflectionMm (Num v) m fp =
       ((Num 0.5 * Num 1.225 * Math_min (Num v) (Num 300) * Math_min (Num v) (Num 300) * Num 1.28
           * farea / Math_max (Num 0.001) (Num h * Num 0.001))
         * Math_pow_int (Num h * Num 0.001) 4 * Math_cos sweep / (Num 8 * Num e * I)
         * (Num 1 / (Num 1 - taper))) * Num 1000" for v
    unfolding computeDeflectionMm_def Let_def fp mat sft_def farea_def taper_def sweep_def
      I0_def I_def
    by (rule refl)
  define fa where "fa = ((b + t) * 0.001) * (h * 0.001) / 2"
  have fa: "farea = Num fa"
    by (simp add: farea_def fa_def)
  have fa_nonneg: "0 \<le> fa"
    using pos by (simp add: fa_def)
  define tr where "tr = max (- 0.9) (min 0.9 (((b * 0.001) - (t * 0.001)) / (h * 0.001)))"
  have tr: "taper = Num tr"
    using pos by (simp add: taper_def tr_def)
  have tr_le: "tr \<le> 0.9"
    unfolding tr_def by linarith
  define sw where "sw = arctan ((s * 0.001 + 0.5 * t * 0.001 - 0.5 * b * 0.001) * pi / (h * 0.001))"
  have sw: "sweep = Num sw"
    using pos by (simp add: sweep_def sw_def Math_PI_def)
  have cos_sw: "0 < cos sw"
    unfolding sw_def by (rule cos_gt_zero_pi [OF arctan_lbound arctan_ubound])
  define thr where "thr = (if th = 0 then 2 else th)"
  have thr: "sft = Num thr"
    by (simp add: sft_def thr_def)
  define i0 where "i0 = ((b + t) * 0.001 / 2 * (thr * 0.001) ^ 3) / 12"
  have i0: "I0 = Num i0"
    by (simp add: I0_def thr i0_def)
  define i where "i = (if i0 < 1 / 10 ^ 12 then 1 / 10 ^ 12 else i0)"
  have i: "I = Num i"
    by (simp add: I_def i0 i_def)
  have i_pos: "0 < i"
    by (simp add: i_def)
  define K where "K = ((0.5 * 1.225 * 1.28 * fa / max 0.001 (h * 0.001)) * (h * 0.001) ^ 4
                        * cos sw / (8 * e * i) * (1 / (1 - tr))) * 1000"
  have "0 \<le> K"
    unfolding K_def using fa_nonneg pos mat cos_sw i_pos tr_le
    by (intro mult_nonneg_nonneg divide_nonneg_nonneg) auto
  moreover have "computeDeflectionMm (Num v) m fp = Num (K * (min v 300 * min v 300))" for v
  proof -
    have "max 0.001 (h * 0.001) \<noteq> (0::real)"
      by (simp add: max_def)
    then show ?thesis
      unfolding decomposition fa tr sw i K_def
      using pos mat i_pos tr_le by simp
  qed
  ultimately show ?thesis
    by blast
qed

lemma square_min_mono:
  fixes v1 v2 :: real
  assumes "0 \<le> v1" "v1 \<le> v2"
  shows "min v1 300 * min v1 300 \<le> min v2 300 * min v2 300"
  using assms by (intro mult_mono) (auto simp: min_def)

lemma conclude_mono:
  assumes "0 \<le> K" "0 \<le> v1" "v1 \<le> v2"
  shows "(if Math_abs (Num v1) < Num 0.001 then Num 0
          else concludeDeflection (Inr (Num (K * (min v1 300 * min v1 300)))))
       \<le> (if Math_abs (Num v2) < Num 0.001 then Num 0
          else concludeDeflection (Inr (Num (K * (min v2 300 * min v2 300)))))"
proof -
  have a: "K * (min v1 300 * min v1 300) \<le> K * (min v2 300 * min v2 300)"
    using assms square_min_mono by (intro mult_left_mono) auto
  have b: "0 \<le> K * (min v1 300 * min v1 300)" "0 \<le> K * (min v2 300 * min v2 300)"
    using assms by simp_all
  show ?thesis
    using a b assms by (auto simp: concludeDeflection_def)
qed

lemma later_fin_deflection_monotone:
  assumes fp: "FinParams.finHeight fp = Num h" "FinParams.finBaseWidth fp = Num b"
      "FinParams.finTipWidth fp = Num t" "FinParams.finThickness fp = Num th"
      "FinParams.finSweepLength fp = Num s"
    and pos: "0 < h" "0 \<le> b" "0 \<le> t"
    and mat: "Material.E m = Num e" "0 < e"
    and vel: "0 \<le> v1" "v1 \<le> v2"
  shows "calculateFinDeflection (Num v1) m fp a \<le> calculateFinDeflection (Num v2) m fp a"
proof -
  obtain K where K: "0 \<le> K"
      "\<And>v. computeDeflectionMm (Num v) m fp = Num (K * (min v 300 * min v 300))"
    using mm_form [OF fp pos mat] by blast
  show ?thesis
    unfolding calculateFinDeflection_def K(2)
    by (rule conclude_mono [OF K(1) vel])
qed

end
